theory Spec2Isabelle
  imports Main
begin

section \<open>Exceptions and Python values\<close>

text \<open>
  Exceptions are instances of Python's \<open>Exception\<close>: a class and the message that
  \<open>str(e)\<close> prints. \<open>AlreadyExistsException\<close> is the catalog client's class of that name.
\<close>

datatype exn_class =
  TypeError | ValueError | AnalysisException | AlreadyExistsException | OtherError

datatype exn = Exn exn_class string

fun class_of :: "exn \<Rightarrow> exn_class" where
  "class_of (Exn c m) = c"

fun str_exn :: "exn \<Rightarrow> string" where
  "str_exn (Exn c m) = m"

text \<open>
  The values that reach \<open>extract_tenant_id\<close> are what a JSON document decodes to in
  Python (\<open>None\<close>, booleans, integers, strings, lists, dicts with string keys), plus
  tuples, the other built-in sequence, and objects of other classes. A dict is kept as the
  list of its items, looked up with \<open>map_of\<close>. An object of another class is given by what
  its truth test does and by what iterating it does, each a result or an exception (a
  NumPy array of two elements raises \<open>ValueError\<close> when tested and yields its elements
  when iterated); it is not a dict and compares unequal to every string.
\<close>

datatype pyval =
    PNone
  | PBool bool
  | PInt int
  | PStr string
  | PList "pyval list"
  | PTuple "pyval list"
  | PDict "(string \<times> pyval) list"
  | PObject "exn + bool" "exn + pyval list"

text \<open>
  The truth test that \<open>not v\<close> and \<open>if v\<close> make: it returns for every built-in value and
  does what the object's own test does otherwise.
\<close>

fun truthy :: "pyval \<Rightarrow> exn + bool" where
  "truthy PNone = Inr False"
| "truthy (PBool b) = Inr b"
| "truthy (PInt n) = Inr (n \<noteq> 0)"
| "truthy (PStr s) = Inr (s \<noteq> [])"
| "truthy (PList xs) = Inr (xs \<noteq> [])"
| "truthy (PTuple xs) = Inr (xs \<noteq> [])"
| "truthy (PDict kvs) = Inr (kvs \<noteq> [])"
| "truthy (PObject test iter) = test"

text \<open>
  \<open>for x in v\<close>: a list or tuple yields its elements, a string its one-character
  strings, a dict its keys; \<open>None\<close>, a boolean and an integer are not iterable and raise
  \<open>TypeError\<close>; an object of another class does what its own iteration does.
\<close>

fun py_iter :: "pyval \<Rightarrow> exn + pyval list" where
  "py_iter (PList xs) = Inr xs"
| "py_iter (PTuple xs) = Inr xs"
| "py_iter (PStr s) = Inr (map (\<lambda>c. PStr [c]) s)"
| "py_iter (PDict kvs) = Inr (map (\<lambda>kv. PStr (fst kv)) kvs)"
| "py_iter PNone = Inl (Exn TypeError ''object is not iterable'')"
| "py_iter (PBool b) = Inl (Exn TypeError ''object is not iterable'')"
| "py_iter (PInt n) = Inl (Exn TypeError ''object is not iterable'')"
| "py_iter (PObject test iter) = iter"

text \<open>\<open>isinstance(v, dict)\<close>.\<close>

fun isinstance_dict :: "pyval \<Rightarrow> bool" where
  "isinstance_dict (PDict kvs) = True"
| "isinstance_dict v = False"

text \<open>\<open>d.get(k)\<close> on a dict (\<open>None\<close> when the key is absent) and \<open>d.get(k, default)\<close>.\<close>

fun dict_get :: "pyval \<Rightarrow> string \<Rightarrow> pyval" where
  "dict_get (PDict kvs) k = (case map_of kvs k of Some v \<Rightarrow> v | None \<Rightarrow> PNone)"
| "dict_get v k = PNone"

fun dict_get_default :: "pyval \<Rightarrow> string \<Rightarrow> pyval \<Rightarrow> pyval" where
  "dict_get_default (PDict kvs) k d = (case map_of kvs k of Some v \<Rightarrow> v | None \<Rightarrow> d)"
| "dict_get_default v k d = d"

section \<open>Tenant extraction\<close>

definition TENANT_CLAIM_SYSTEM :: string where
  "TENANT_CLAIM_SYSTEM = ''http://thirdopinion.io/identity/claims/tenant''"

text \<open>
  The body of the \<open>for\<close> loop of \<open>extract_tenant_id\<close>: \<open>Some v\<close> is the \<open>return\<close> inside
  the loop, \<open>None\<close> is the loop running to its end.
\<close>

fun scan_labels :: "pyval list \<Rightarrow> pyval option" where
  "scan_labels [] = None"
| "scan_labels (label # rest) =
     (if isinstance_dict label \<and> dict_get label ''system'' = PStr TENANT_CLAIM_SYSTEM
      then Some (dict_get_default label ''code'' (PStr ''unknown''))
      else scan_labels rest)"

text \<open>
  The \<open>try\<close> block: iterating the argument may raise; the loop body (\<open>isinstance\<close>,
  \<open>dict.get\<close> and the comparison with a string) returns on every value.
\<close>

definition try_scan :: "pyval \<Rightarrow> exn + pyval option" where
  "try_scan security_labels =
     (case py_iter security_labels of
        Inl e \<Rightarrow> Inl e
      | Inr labels \<Rightarrow> Inr (scan_labels labels))"

text \<open>
  \<open>extract_tenant_id\<close>. The result is \<open>Inl\<close> for an exception that leaves the function
  and \<open>Inr\<close> for a returned value. The test \<open>if not security_labels\<close> comes before the
  \<open>try\<close>, so an exception of the truth test leaves the function; the bare
  \<open>except: pass\<close> turns every exception of the \<open>try\<close> block into the fall-through to the
  last \<open>return\<close>.
\<close>

definition extract_tenant_id :: "pyval \<Rightarrow> exn + pyval" where
  "extract_tenant_id security_labels =
     (case truthy security_labels of
        Inl e \<Rightarrow> Inl e
      | Inr b \<Rightarrow>
          if \<not> b then Inr (PStr ''unknown'')
          else case try_scan security_labels of
                 Inr (Some v) \<Rightarrow> Inr v
               | Inr None \<Rightarrow> Inr (PStr ''unknown'')
               | Inl e \<Rightarrow> Inr (PStr ''unknown''))"

text \<open>
  A label matches when it is a mapping whose \<open>system\<close> is the tenant claim system.
\<close>

definition matches :: "pyval \<Rightarrow> bool" where
  "matches label = (isinstance_dict label \<and> dict_get label ''system'' = PStr TENANT_CLAIM_SYSTEM)"

text \<open>The label \<open>{"system": TENANT_CLAIM_SYSTEM, "code": code}\<close> of the docstring.\<close>

definition tenant_label :: "string \<Rightarrow> pyval" where
  "tenant_label code = PDict [(''system'', PStr TENANT_CLAIM_SYSTEM), (''code'', PStr code)]"



section \<open>Run configuration\<close>

text \<open>
  The module-level configuration read from the job parameters once at start:
  \<open>enable_multi_tenant\<close> is \<open>args['ENABLE_MULTI_TENANT'].lower() == 'true'\<close>.
\<close>

record config =
  raw_bucket :: string
  curated_bucket :: string
  tenant_partition_key :: string
  enable_multi_tenant :: bool
  export_path :: string
  timestamp :: string

text \<open>
  \<open>str.lower()\<close>, and \<open>str(b)\<close> of a boolean. A character is a code point below 256; the
  ones \<open>str.lower()\<close> changes there are \<open>A\<close> to \<open>Z\<close> and the capital letters of Latin-1
  (\<open>0xC0\<close> to \<open>0xDE\<close> without the sign \<open>0xD7\<close>), each moved up by 32.
\<close>

definition upper_case :: string where
  "upper_case =
     ''ABCDEFGHIJKLMNOPQRSTUVWXYZ'' @
       [CHR 0xC0, CHR 0xC1, CHR 0xC2, CHR 0xC3, CHR 0xC4, CHR 0xC5, CHR 0xC6, CHR 0xC7,
        CHR 0xC8, CHR 0xC9, CHR 0xCA, CHR 0xCB, CHR 0xCC, CHR 0xCD, CHR 0xCE, CHR 0xCF,
        CHR 0xD0, CHR 0xD1, CHR 0xD2, CHR 0xD3, CHR 0xD4, CHR 0xD5, CHR 0xD6, CHR 0xD8,
        CHR 0xD9, CHR 0xDA, CHR 0xDB, CHR 0xDC, CHR 0xDD, CHR 0xDE]"

definition lower_case :: string where
  "lower_case =
     ''abcdefghijklmnopqrstuvwxyz'' @
       [CHR 0xE0, CHR 0xE1, CHR 0xE2, CHR 0xE3, CHR 0xE4, CHR 0xE5, CHR 0xE6, CHR 0xE7,
        CHR 0xE8, CHR 0xE9, CHR 0xEA, CHR 0xEB, CHR 0xEC, CHR 0xED, CHR 0xEE, CHR 0xEF,
        CHR 0xF0, CHR 0xF1, CHR 0xF2, CHR 0xF3, CHR 0xF4, CHR 0xF5, CHR 0xF6, CHR 0xF8,
        CHR 0xF9, CHR 0xFA, CHR 0xFB, CHR 0xFC, CHR 0xFD, CHR 0xFE]"

definition lower_char :: "char \<Rightarrow> char" where
  "lower_char c = (case map_of (zip upper_case lower_case) c of Some d \<Rightarrow> d | None \<Rightarrow> c)"

definition lower :: "string \<Rightarrow> string" where
  "lower s = map lower_char s"

definition str_bool :: "bool \<Rightarrow> string" where
  "str_bool b = (if b then ''True'' else ''False'')"

section \<open>The tabular engine\<close>

text \<open>
  A data frame is its schema (the \<open>StructField\<close>s: name and \<open>str(dataType)\<close>), its rows,
  and the setting \<open>spark.sql.caseSensitive\<close> of the session it belongs to (false unless
  set); a row maps top-level column names to values. A column expression is a reference
  to a column, a literal, or the application of a registered Python function to a column
  expression, as \<open>col\<close>, \<open>lit\<close> and \<open>udf(f, StringType())(c)\<close> build them.
\<close>

type_synonym row = "(string \<times> pyval) list"

record dataframe =
  case_sensitive :: bool
  schema_fields :: "(string \<times> string) list"
  rows :: "row list"

datatype column =
    Col string
  | Lit pyval
  | Udf "pyval \<Rightarrow> exn + pyval" column

datatype save_mode = Append | Overwrite

text \<open>
  What the job does to the outside world, in order: lines printed and calls made to the
  engine's reader and writer and to the catalog client.
\<close>

datatype event =
    Print string
  | ReadJson string
  | WriteParquet save_mode "string list" string dataframe
  | CreateTable string pyval
  | UpdateTable string pyval

text \<open>
  The collaborators. Each answers from the events so far and the request: \<open>Inl e\<close> or
  \<open>Some e\<close> is the call raising \<open>e\<close>. \<open>count_fault\<close> is \<open>df.count()\<close> raising (its value
  is the number of rows), \<open>col_value\<close> is the engine resolving a column reference on a row
  of a data frame and handing the value to Python, \<open>now_isoformat\<close> is
  \<open>datetime.now().isoformat()\<close>, \<open>boto3_client\<close> is \<open>boto3.client(name)\<close> raising, and
  \<open>create_table\<close> and \<open>update_table\<close> are the calls on the client it returns.
\<close>

record env =
  read_json :: "event list \<Rightarrow> string \<Rightarrow> exn + dataframe"
  count_fault :: "event list \<Rightarrow> dataframe \<Rightarrow> exn option"
  col_value :: "dataframe \<Rightarrow> string \<Rightarrow> row \<Rightarrow> exn + pyval"
  now_isoformat :: "event list \<Rightarrow> string"
  parquet :: "event list \<Rightarrow> save_mode \<Rightarrow> string list \<Rightarrow> string \<Rightarrow> dataframe \<Rightarrow> exn option"
  boto3_client :: "event list \<Rightarrow> string \<Rightarrow> exn option"
  create_table :: "event list \<Rightarrow> string \<Rightarrow> pyval \<Rightarrow> exn option"
  update_table :: "event list \<Rightarrow> string \<Rightarrow> pyval \<Rightarrow> exn option"

fun eval_column :: "env \<Rightarrow> dataframe \<Rightarrow> column \<Rightarrow> row \<Rightarrow> exn + pyval" where
  "eval_column env df (Col name) r = col_value env df name r"
| "eval_column env df (Lit v) r = Inr v"
| "eval_column env df (Udf f c) r =
     (case eval_column env df c r of Inl e \<Rightarrow> Inl e | Inr v \<Rightarrow> f v)"

text \<open>Whether evaluating a column expression calls a Python function.\<close>

fun invokes_udf :: "column \<Rightarrow> bool" where
  "invokes_udf (Col name) = False"
| "invokes_udf (Lit v) = False"
| "invokes_udf (Udf f c) = True"

text \<open>Evaluating an expression on every row; the first failure is the failure.\<close>

fun map_rows :: "(row \<Rightarrow> exn + row) \<Rightarrow> row list \<Rightarrow> exn + row list" where
  "map_rows f [] = Inr []"
| "map_rows f (r # rs) =
     (case f r of
        Inl e \<Rightarrow> Inl e
      | Inr r' \<Rightarrow> (case map_rows f rs of Inl e \<Rightarrow> Inl e | Inr rs' \<Rightarrow> Inr (r' # rs')))"

text \<open>
  The engine's test that a column of the frame is the one a name refers to: the names are
  equal, or equal up to case when the session is not case sensitive.
\<close>

definition same_name :: "bool \<Rightarrow> string \<Rightarrow> string \<Rightarrow> bool" where
  "same_name cs a b = (if cs then a = b else lower a = lower b)"

text \<open>
  \<open>df.withColumn(name, c)\<close>: the new column, under the new name, takes the place of every
  column that the name refers to, and is added at the end when there is none. Every
  column this job adds is a string column.
\<close>

definition set_column :: "bool \<Rightarrow> string \<Rightarrow> 'v \<Rightarrow> (string \<times> 'v) list \<Rightarrow> (string \<times> 'v) list" where
  "set_column cs name v r =
     (if list_ex (\<lambda>kv. same_name cs (fst kv) name) r
      then map (\<lambda>kv. if same_name cs (fst kv) name then (name, v) else kv) r
      else r @ [(name, v)])"

definition with_column :: "env \<Rightarrow> string \<Rightarrow> column \<Rightarrow> dataframe \<Rightarrow> exn + dataframe" where
  "with_column env name c df =
     (case map_rows (\<lambda>r. case eval_column env df c r of
                           Inl e \<Rightarrow> Inl e
                         | Inr v \<Rightarrow> Inr (set_column (case_sensitive df) name v r)) (rows df) of
        Inl e \<Rightarrow> Inl e
      | Inr rs \<Rightarrow>
          Inr (df\<lparr>schema_fields :=
                     set_column (case_sensitive df) name ''StringType()'' (schema_fields df),
                   rows := rs\<rparr>))"

section \<open>Catalog synchronization\<close>

definition database_name :: string where
  "database_name = ''healthlake_analytics''"

text \<open>The loop that converts the schema's fields to catalog columns.\<close>

fun glue_schema_loop :: "config \<Rightarrow> (string \<times> string) list \<Rightarrow> pyval list \<Rightarrow> pyval list" where
  "glue_schema_loop cfg [] glue_schema = glue_schema"
| "glue_schema_loop cfg (field # sfields) glue_schema =
     glue_schema_loop cfg sfields
       (if fst field \<notin> set [tenant_partition_key cfg, ''_export_timestamp'']
        then glue_schema @ [PDict [(''Name'', PStr (fst field)), (''Type'', PStr (lower (snd field)))]]
        else glue_schema)"

definition partition_keys :: "config \<Rightarrow> pyval list" where
  "partition_keys cfg =
     [PDict [(''Name'', PStr (tenant_partition_key cfg)), (''Type'', PStr ''string'')],
      PDict [(''Name'', PStr ''_export_timestamp''), (''Type'', PStr ''string'')]]"

text \<open>The \<open>TableInput\<close> dicts of the \<open>create_table\<close> and of the \<open>update_table\<close> call.\<close>

definition create_table_input :: "config \<Rightarrow> string \<Rightarrow> string \<Rightarrow> (string \<times> string) list \<Rightarrow> pyval" where
  "create_table_input cfg table_name location sfields =
     PDict [
       (''Name'', PStr table_name),
       (''StorageDescriptor'', PDict [
          (''Columns'', PList (glue_schema_loop cfg sfields [])),
          (''Location'', PStr location),
          (''InputFormat'', PStr ''org.apache.hadoop.mapred.TextInputFormat''),
          (''OutputFormat'', PStr ''org.apache.hadoop.hive.ql.io.HiveIgnoreKeyTextOutputFormat''),
          (''SerdeInfo'', PDict [
             (''SerializationLibrary'', PStr ''org.apache.hadoop.hive.serde2.lazy.LazySimpleSerDe'')]),
          (''StoredAsSubDirectories'', PBool False)]),
       (''PartitionKeys'', PList (partition_keys cfg)),
       (''TableType'', PStr ''EXTERNAL_TABLE''),
       (''Parameters'', PDict [
          (''classification'', PStr ''parquet''),
          (''compressionType'', PStr ''snappy''),
          (''typeOfData'', PStr ''file'')])]"

definition update_table_input :: "config \<Rightarrow> string \<Rightarrow> string \<Rightarrow> (string \<times> string) list \<Rightarrow> pyval" where
  "update_table_input cfg table_name location sfields =
     PDict [
       (''Name'', PStr table_name),
       (''StorageDescriptor'', PDict [
          (''Columns'', PList (glue_schema_loop cfg sfields [])),
          (''Location'', PStr location)]),
       (''PartitionKeys'', PList (partition_keys cfg))]"

text \<open>
  The inner \<open>try\<close> of \<open>create_glue_table\<close>: the create call, and the update call in the
  handler of \<open>AlreadyExistsException\<close>. An exception of another class, or one raised by
  the update call, leaves the block.
\<close>

definition create_or_update ::
  "config \<Rightarrow> env \<Rightarrow> string \<Rightarrow> string \<Rightarrow> (string \<times> string) list \<Rightarrow> event list
     \<Rightarrow> (exn + unit) \<times> event list" where
  "create_or_update cfg env table_name location sfields tr =
     (let ci = create_table_input cfg table_name location sfields;
          tr1 = tr @ [CreateTable database_name ci]
      in case create_table env tr database_name ci of
           None \<Rightarrow> (Inr (), tr1 @ [Print (''Created Glue table: '' @ table_name)])
         | Some e \<Rightarrow>
             if class_of e = AlreadyExistsException then
               (let ui = update_table_input cfg table_name location sfields;
                    tr2 = tr1 @ [Print (''Table '' @ table_name @ '' already exists, updating...'')];
                    tr3 = tr2 @ [UpdateTable database_name ui]
                in case update_table env tr2 database_name ui of
                     None \<Rightarrow> (Inr (), tr3)
                   | Some e' \<Rightarrow> (Inl e', tr3))
             else (Inl e, tr1))"

text \<open>
  The outer \<open>try\<close> of \<open>create_glue_table\<close>: the schema and the partition keys are built
  (nothing there raises), the client is obtained with \<open>boto3.client('glue')\<close>, which may
  raise, and then comes the inner \<open>try\<close>.
\<close>

definition create_glue_table_try ::
  "config \<Rightarrow> env \<Rightarrow> string \<Rightarrow> string \<Rightarrow> (string \<times> string) list \<Rightarrow> event list
     \<Rightarrow> (exn + unit) \<times> event list" where
  "create_glue_table_try cfg env table_name location sfields tr =
     (case boto3_client env tr ''glue'' of
        Some e \<Rightarrow> (Inl e, tr)
      | None \<Rightarrow> create_or_update cfg env table_name location sfields tr)"

text \<open>\<open>create_glue_table\<close>: the outer \<open>except Exception\<close> prints and returns.\<close>

definition create_glue_table ::
  "config \<Rightarrow> env \<Rightarrow> string \<Rightarrow> string \<Rightarrow> (string \<times> string) list \<Rightarrow> event list
     \<Rightarrow> (exn + unit) \<times> event list" where
  "create_glue_table cfg env table_name location sfields tr =
     (case create_glue_table_try cfg env table_name location sfields tr of
        (Inr u, tr') \<Rightarrow> (Inr (), tr')
      | (Inl e, tr') \<Rightarrow>
          (Inr (), tr' @ [Print (''Error creating/updating Glue table '' @ table_name @ '': ''
                                  @ str_exn e)]))"

section \<open>Processing one resource type\<close>

text \<open>The column that \<open>process_resource_type\<close> adds under the tenant partition key.\<close>

definition tenant_column :: "config \<Rightarrow> column" where
  "tenant_column cfg =
     (if enable_multi_tenant cfg then Udf extract_tenant_id (Col ''meta.security'')
      else Lit (PStr ''default''))"

definition df_with_tenant :: "config \<Rightarrow> env \<Rightarrow> dataframe \<Rightarrow> exn + dataframe" where
  "df_with_tenant cfg env df = with_column env (tenant_partition_key cfg) (tenant_column cfg) df"

definition df_with_metadata :: "config \<Rightarrow> env \<Rightarrow> string \<Rightarrow> dataframe \<Rightarrow> exn + dataframe" where
  "df_with_metadata cfg env now dft =
     (case with_column env ''_export_timestamp'' (Lit (PStr (timestamp cfg))) dft of
        Inl e \<Rightarrow> Inl e
      | Inr d \<Rightarrow> with_column env ''_processing_date'' (Lit (PStr now)) d)"

definition output_path :: "config \<Rightarrow> string \<Rightarrow> string" where
  "output_path cfg resource_type = ''s3://'' @ curated_bucket cfg @ ''/'' @ lower resource_type @ ''/''"

text \<open>The \<open>try\<close> block of \<open>process_resource_type\<close>.\<close>

definition process_try ::
  "config \<Rightarrow> env \<Rightarrow> string \<Rightarrow> string \<Rightarrow> event list \<Rightarrow> (exn + unit) \<times> event list" where
  "process_try cfg env resource_type input_path tr =
     (let tr1 = tr @ [ReadJson input_path]
      in case read_json env tr input_path of
           Inl e \<Rightarrow> (Inl e, tr1)
         | Inr df \<Rightarrow>
            (case count_fault env tr1 df of
               Some e \<Rightarrow> (Inl e, tr1)
             | None \<Rightarrow>
                if length (rows df) = 0
                then (Inr (), tr1 @ [Print (''No data found for '' @ resource_type)])
                else
                 (case df_with_tenant cfg env df of
                    Inl e \<Rightarrow> (Inl e, tr1)
                  | Inr dft \<Rightarrow>
                     (case df_with_metadata cfg env (now_isoformat env tr1) dft of
                        Inl e \<Rightarrow> (Inl e, tr1)
                      | Inr dfm \<Rightarrow>
                         (let out = output_path cfg resource_type;
                              keys = [tenant_partition_key cfg, ''_export_timestamp''];
                              tr2 = tr1 @ [WriteParquet Append keys out dfm]
                          in case parquet env tr1 Append keys out dfm of
                               Some e \<Rightarrow> (Inl e, tr2)
                             | None \<Rightarrow>
                                 create_glue_table cfg env (lower resource_type) out
                                   (schema_fields dfm)
                                   (tr2 @ [Print (''Successfully wrote '' @ resource_type
                                                   @ '' to '' @ out)]))))))"

text \<open>\<open>process_resource_type\<close>: the handler prints and raises again.\<close>

definition process_resource_type ::
  "config \<Rightarrow> env \<Rightarrow> string \<Rightarrow> string \<Rightarrow> string \<Rightarrow> event list \<Rightarrow> (exn + unit) \<times> event list" where
  "process_resource_type cfg env resource_type input_path output_base_path tr =
     (case process_try cfg env resource_type input_path
             (tr @ [Print (''Processing '' @ resource_type @ '' from '' @ input_path)]) of
        (Inr u, tr') \<Rightarrow> (Inr (), tr')
      | (Inl e, tr') \<Rightarrow>
          (Inl e, tr' @ [Print (''Error processing '' @ resource_type @ '': '' @ str_exn e)]))"

section \<open>The orchestrator\<close>

definition resource_types :: "string list" where
  "resource_types =
     [''Patient'', ''Observation'', ''Condition'', ''MedicationRequest'', ''Procedure'',
      ''DiagnosticReport'', ''Encounter'', ''AllergyIntolerance'', ''Immunization'',
      ''CarePlan'', ''Goal'', ''MedicationStatement'']"

definition input_path_of :: "config \<Rightarrow> string \<Rightarrow> string" where
  "input_path_of cfg resource_type = export_path cfg @ resource_type @ ''*.ndjson''"

text \<open>The \<open>for\<close> loop of \<open>main\<close>: a failed resource type is printed and the loop goes on.\<close>

fun process_all :: "config \<Rightarrow> env \<Rightarrow> string list \<Rightarrow> event list \<Rightarrow> event list" where
  "process_all cfg env [] tr = tr"
| "process_all cfg env (resource_type # rest) tr =
     (case process_resource_type cfg env resource_type (input_path_of cfg resource_type)
             (''s3://'' @ curated_bucket cfg @ ''/'') tr of
        (Inr u, tr') \<Rightarrow> process_all cfg env rest tr'
      | (Inl e, tr') \<Rightarrow>
          process_all cfg env rest
            (tr' @ [Print (''Failed to process '' @ resource_type @ '': '' @ str_exn e)]))"

text \<open>\<open>main\<close>, over a list of resource types; the job's list is \<open>resource_types\<close>.\<close>

definition main_over :: "config \<Rightarrow> env \<Rightarrow> string list \<Rightarrow> event list" where
  "main_over cfg env rts =
     process_all cfg env rts
       [Print ''Starting HealthLake ETL processing'',
        Print (''Export path: '' @ export_path cfg),
        Print (''Multi-tenant mode: '' @ str_bool (enable_multi_tenant cfg))]
     @ [Print ''ETL processing completed successfully'']"

definition main :: "config \<Rightarrow> env \<Rightarrow> event list" where
  "main cfg env = main_over cfg env resource_types"

section \<open>Observing a run\<close>

text \<open>The events a call adds to the events \<open>tr\<close> it started from.\<close>

definition new_events :: "event list \<Rightarrow> event list \<Rightarrow> event list" where
  "new_events tr tr' = drop (length tr) tr'"

text \<open>The calls to the engine's reader and writer.\<close>

fun is_engine_event :: "event \<Rightarrow> bool" where
  "is_engine_event (ReadJson p) = True"
| "is_engine_event (WriteParquet m ks p d) = True"
| "is_engine_event e = False"

text \<open>The paths of the read calls, in order: one per resource type attempted.\<close>

fun read_attempts :: "event list \<Rightarrow> string list" where
  "read_attempts [] = []"
| "read_attempts (ReadJson p # es) = p # read_attempts es"
| "read_attempts (e # es) = read_attempts es"

text \<open>
  The test of the loop of \<open>create_glue_table\<close> on a field, and the column dict it appends.
\<close>

definition keep_field :: "config \<Rightarrow> string \<times> string \<Rightarrow> bool" where
  "keep_field cfg field = (fst field \<noteq> tenant_partition_key cfg \<and> fst field \<noteq> ''_export_timestamp'')"

definition glue_column :: "string \<times> string \<Rightarrow> pyval" where
  "glue_column field = PDict [(''Name'', PStr (fst field)), (''Type'', PStr (lower (snd field)))]"

text \<open>A write event is in append mode, partitioned by the tenant key, then the export timestamp.\<close>

fun write_ok :: "config \<Rightarrow> event \<Rightarrow> bool" where
  "write_ok cfg (WriteParquet m ks p d) =
     (m = Append \<and> ks = [tenant_partition_key cfg, ''_export_timestamp''])"
| "write_ok cfg e = True"

text \<open>\<open>list(d.keys())\<close>, and the \<open>TableInput\<close>s of the create and update calls of a run.\<close>

fun dict_keys :: "pyval \<Rightarrow> string list" where
  "dict_keys (PDict kvs) = map fst kvs"
| "dict_keys v = []"

fun create_calls :: "event list \<Rightarrow> (string \<times> pyval) list" where
  "create_calls [] = []"
| "create_calls (CreateTable db ti # es) = (db, ti) # create_calls es"
| "create_calls (e # es) = create_calls es"

fun update_calls :: "event list \<Rightarrow> (string \<times> pyval) list" where
  "update_calls [] = []"
| "update_calls (UpdateTable db ti # es) = (db, ti) # update_calls es"
| "update_calls (e # es) = update_calls es"

text \<open>
  A \<open>TableInput\<close> that, beside the table's name, carries only the columns and the
  location: no other key at the top, no other key in the storage descriptor.
\<close>

definition carries_only_columns_and_location :: "pyval \<Rightarrow> bool" where
  "carries_only_columns_and_location ti \<longleftrightarrow>
     list_all (\<lambda>k. k \<in> set [''Name'', ''StorageDescriptor'']) (dict_keys ti) \<and>
     list_all (\<lambda>k. k \<in> set [''Columns'', ''Location''])
       (dict_keys (dict_get ti ''StorageDescriptor''))"

section \<open>An example run\<close>

text \<open>
  A configuration, a data frame of two records (one labelled with tenant \<open>T1\<close>, one without
  labels) in a session that ignores case in column names, and collaborators: every read
  yields the data frame, the write under \<open>s3://curated/b/\<close> fails, the catalog client is always
  obtained, and the catalog has a table once a create call has named it.
\<close>

definition example_config :: config where
  "example_config =
     \<lparr>raw_bucket = ''raw'', curated_bucket = ''curated'', tenant_partition_key = ''tenant_id'',
      enable_multi_tenant = True, export_path = ''s3://raw/export/'',
      timestamp = ''2024-01-01T00:00Z''\<rparr>"

definition example_row1 :: row where
  "example_row1 =
     [(''id'', PStr ''p1''), (''meta'', PDict [(''security'', PList [tenant_label ''T1''])])]"

definition example_row2 :: row where
  "example_row2 = [(''id'', PStr ''p2''), (''meta'', PDict [])]"

definition example_df :: dataframe where
  "example_df =
     \<lparr>case_sensitive = False,
      schema_fields = [(''id'', ''StringType()''), (''meta'', ''StructType()'')],
      rows = [example_row1, example_row2]\<rparr>"

fun names_table :: "pyval \<Rightarrow> event \<Rightarrow> bool" where
  "names_table ti (CreateTable db ti') = (dict_get ti' ''Name'' = dict_get ti ''Name'')"
| "names_table ti e = False"

definition example_env :: env where
  "example_env =
     \<lparr>read_json = (\<lambda>tr path. Inr example_df),
      count_fault = (\<lambda>tr df. None),
      col_value = (\<lambda>df name r. Inr (dict_get (dict_get (PDict r) ''meta'') ''security'')),
      now_isoformat = (\<lambda>tr. ''2024-01-02T03:04:05''),
      parquet = (\<lambda>tr m ks p d. if p = ''s3://curated/b/''
                               then Some (Exn OtherError ''write failed'') else None),
      boto3_client = (\<lambda>tr name. None),
      create_table = (\<lambda>tr db ti. if list_ex (names_table ti) tr
                                 then Some (Exn AlreadyExistsException ''Table already exists'')
                                 else None),
      update_table = (\<lambda>tr db ti. None)\<rparr>"

text \<open>
  The example data frame after tagging in multi-tenant mode, and after the metadata
  columns are added.
\<close>

definition example_df_with_tenant :: dataframe where
  "example_df_with_tenant =
     \<lparr>case_sensitive = False,
      schema_fields = [(''id'', ''StringType()''), (''meta'', ''StructType()''),
                        (''tenant_id'', ''StringType()'')],
      rows = [example_row1 @ [(''tenant_id'', PStr ''T1'')],
              example_row2 @ [(''tenant_id'', PStr ''unknown'')]]\<rparr>"

definition example_df_with_metadata :: dataframe where
  "example_df_with_metadata =
     \<lparr>case_sensitive = False,
      schema_fields = [(''id'', ''StringType()''), (''meta'', ''StructType()''),
                        (''tenant_id'', ''StringType()''), (''_export_timestamp'', ''StringType()''),
                        (''_processing_date'', ''StringType()'')],
      rows = [example_row1 @ [(''tenant_id'', PStr ''T1''),
                              (''_export_timestamp'', PStr ''2024-01-01T00:00Z''),
                              (''_processing_date'', PStr ''2024-01-02T03:04:05'')],
              example_row2 @ [(''tenant_id'', PStr ''unknown''),
                              (''_export_timestamp'', PStr ''2024-01-01T00:00Z''),
                              (''_processing_date'', PStr ''2024-01-02T03:04:05'')]]\<rparr>"

text \<open>
  Catalogs that refuse the create call, and that fail the update of an existing table,
  and an environment in which the catalog client cannot be obtained.
\<close>

definition example_env_denied :: env where
  "example_env_denied =
     example_env\<lparr>create_table := (\<lambda>tr db ti. Some (Exn OtherError ''AccessDeniedException''))\<rparr>"

definition example_env_update_fails :: env where
  "example_env_update_fails =
     example_env\<lparr>create_table := (\<lambda>tr db ti. Some (Exn AlreadyExistsException ''Table already exists'')),
                 update_table := (\<lambda>tr db ti. Some (Exn OtherError ''ThrottlingException''))\<rparr>"

definition example_env_no_client :: env where
  "example_env_no_client =
     example_env\<lparr>boto3_client := (\<lambda>tr name. Some (Exn OtherError ''NoRegionError''))\<rparr>"

text \<open>
  The frame that \<open>process_resource_type\<close> writes, from the tagged frame: the export
  timestamp and the processing date are set on every row, in this order.
\<close>

definition tagged_with_metadata :: "config \<Rightarrow> string \<Rightarrow> dataframe \<Rightarrow> dataframe" where
  "tagged_with_metadata cfg now dft =
     dft\<lparr>schema_fields :=
           set_column (case_sensitive dft) ''_processing_date'' ''StringType()''
             (set_column (case_sensitive dft) ''_export_timestamp'' ''StringType()''
                (schema_fields dft)),
         rows :=
           map (\<lambda>r. set_column (case_sensitive dft) ''_processing_date'' (PStr now)
                      (set_column (case_sensitive dft) ''_export_timestamp''
                         (PStr (timestamp cfg)) r))
             (rows dft)\<rparr>"

section \<open>Properties of tenant extraction\<close>

lemma scan_labels_no_match:
  "list_all (\<lambda>l. \<not> matches l) labels \<Longrightarrow> scan_labels labels = None"
  by (induction labels) (simp_all add: matches_def)

lemma scan_labels_first_match:
  "list_all (\<lambda>l. \<not> matches l) pre \<Longrightarrow> matches label \<Longrightarrow>
   scan_labels (pre @ label # post) = Some (dict_get_default label ''code'' (PStr ''unknown''))"
  by (induction pre) (auto simp add: matches_def)

lemma extract_list_no_match:
  "list_all (\<lambda>l. \<not> matches l) labels \<Longrightarrow> extract_tenant_id (PList labels) = Inr (PStr ''unknown'')"
  by (simp add: extract_tenant_id_def try_scan_def scan_labels_no_match)


lemma extract_list_first_match:
  "list_all (\<lambda>l. \<not> matches l) pre \<Longrightarrow> matches label \<Longrightarrow>
   extract_tenant_id (PList (pre @ label # post)) =
     Inr (dict_get_default label ''code'' (PStr ''unknown''))"
  by (simp add: extract_tenant_id_def try_scan_def scan_labels_first_match)

lemma matches_PDict:
  "matches (PDict kvs) \<longleftrightarrow> map_of kvs ''system'' = Some (PStr TENANT_CLAIM_SYSTEM)"
  by (simp add: matches_def split: option.splits)

lemma matches_tenant_label: "matches (tenant_label code)"
  by (simp add: matches_def tenant_label_def)







text \<open>
  Over a list of labels the first mapping whose \<open>system\<close> equals the tenant claim system
  decides the result, whatever comes after it: the value stored under its \<open>code\<close> key is
  returned, and \<open>"unknown"\<close> when it has no such key; of two matching labels with codes
  \<open>"G1"\<close> then \<open>"G2"\<close> the result is \<open>"G1"\<close>; a list with no matching label gives
  \<open>"unknown"\<close>.
\<close>

lemma extract_first_match_wins:
  assumes "list_all (\<lambda>l. \<not> matches l) pre"
  shows "(map_of kvs ''system'' = Some (PStr TENANT_CLAIM_SYSTEM) \<and> map_of kvs ''code'' = Some c
            \<longrightarrow> extract_tenant_id (PList (pre @ PDict kvs # post)) = Inr c)
       \<and> (map_of kvs' ''system'' = Some (PStr TENANT_CLAIM_SYSTEM) \<and> map_of kvs' ''code'' = None
            \<longrightarrow> extract_tenant_id (PList (pre @ PDict kvs' # post)) = Inr (PStr ''unknown''))
       \<and> extract_tenant_id (PList (pre @ tenant_label ''G1'' # mid @ tenant_label ''G2'' # post))
            = Inr (PStr ''G1'')
       \<and> extract_tenant_id (PList pre) = Inr (PStr ''unknown'')"
proof (intro conjI impI)
  assume "map_of kvs ''system'' = Some (PStr TENANT_CLAIM_SYSTEM) \<and> map_of kvs ''code'' = Some c"
  then have m: "matches (PDict kvs)" and c: "map_of kvs ''code'' = Some c"
    by (simp_all add: matches_PDict)
  show "extract_tenant_id (PList (pre @ PDict kvs # post)) = Inr c"
    using extract_list_first_match [OF assms m, of post] c by simp
next
  assume "map_of kvs' ''system'' = Some (PStr TENANT_CLAIM_SYSTEM) \<and> map_of kvs' ''code'' = None"
  then have m: "matches (PDict kvs')" and c: "map_of kvs' ''code'' = None"
    by (simp_all add: matches_PDict)
  show "extract_tenant_id (PList (pre @ PDict kvs' # post)) = Inr (PStr ''unknown'')"
    using extract_list_first_match [OF assms m, of post] c by simp
next
  show "extract_tenant_id (PList (pre @ tenant_label ''G1'' # mid @ tenant_label ''G2'' # post))
          = Inr (PStr ''G1'')"
    using extract_list_first_match [OF assms matches_tenant_label, of "''G1''"
        "mid @ tenant_label ''G2'' # post"]
    by (simp add: tenant_label_def)
next
  show "extract_tenant_id (PList pre) = Inr (PStr ''unknown'')"
    using assms by (rule extract_list_no_match)
qed

text \<open>
  C1. The claim has \<open>extract_tenant_id\<close> return \<open>"unknown"\<close> when the first matching label
  has no code. The code does so only when the \<open>code\<close> key is missing: for the labels
  \<open>[{"system": TENANT_CLAIM_SYSTEM, "code": None}]\<close>, a first matching label whose code is
  null, \<open>label.get('code', 'unknown')\<close> finds the key and the function returns \<open>None\<close>,
  not \<open>"unknown"\<close>, while the same label without the key gives \<open>"unknown"\<close>.
\<close>

theorem extract_null_code_returns_none:
  "extract_tenant_id (PList [PDict [(''system'', PStr TENANT_CLAIM_SYSTEM), (''code'', PNone)]])
     = Inr PNone
   \<and> extract_tenant_id (PList [PDict [(''system'', PStr TENANT_CLAIM_SYSTEM)]])
     = Inr (PStr ''unknown'')"
  by (simp add: extract_tenant_id_def try_scan_def)






section \<open>The events of a run\<close>

lemma glue_schema_loop_eq:
  "glue_schema_loop cfg fs acc = acc @ map glue_column (filter (keep_field cfg) fs)"
  by (induction fs arbitrary: acc) (simp_all add: keep_field_def glue_column_def)

lemma new_events_append [simp]: "new_events tr (tr @ evs) = evs"
  by (simp add: new_events_def)

lemma create_or_update_cases:
  "create_or_update cfg env n l fs tr =
    (case create_table env tr database_name (create_table_input cfg n l fs) of
       None \<Rightarrow> (Inr (), tr @ [CreateTable database_name (create_table_input cfg n l fs),
                              Print (''Created Glue table: '' @ n)])
     | Some e \<Rightarrow>
        if class_of e = AlreadyExistsException then
          (case update_table env
                  (tr @ [CreateTable database_name (create_table_input cfg n l fs),
                         Print (''Table '' @ n @ '' already exists, updating...'')])
                  database_name (update_table_input cfg n l fs) of
             None \<Rightarrow> Inr ()
           | Some e' \<Rightarrow> Inl e',
           tr @ [CreateTable database_name (create_table_input cfg n l fs),
                 Print (''Table '' @ n @ '' already exists, updating...''),
                 UpdateTable database_name (update_table_input cfg n l fs)])
        else (Inl e, tr @ [CreateTable database_name (create_table_input cfg n l fs)]))"
  by (simp add: create_or_update_def Let_def split: option.splits)

lemma create_glue_table_shape:
  "\<exists>evs. create_glue_table cfg env n l fs tr = (Inr (), tr @ evs)
    \<and> list_all (\<lambda>e. \<not> is_engine_event e) evs"
  by (simp add: create_glue_table_def create_glue_table_try_def create_or_update_cases
      split: option.splits)

lemma create_glue_table_shape_client:
  "boto3_client env tr ''glue'' = None \<Longrightarrow>
   \<exists>evs. create_glue_table cfg env n l fs tr =
      (Inr (), tr @ CreateTable database_name (create_table_input cfg n l fs) # evs)
    \<and> list_all (\<lambda>e. \<not> is_engine_event e) evs"
  by (simp add: create_glue_table_def create_glue_table_try_def create_or_update_cases
      split: option.splits)

lemma read_attempts_append: "read_attempts (a @ b) = read_attempts a @ read_attempts b"
  by (induction a rule: read_attempts.induct) simp_all

lemma not_engine_reads: "list_all (\<lambda>e. \<not> is_engine_event e) evs \<Longrightarrow> read_attempts evs = []"
  by (induction evs rule: read_attempts.induct) simp_all

lemma not_engine_write_ok: "list_all (\<lambda>e. \<not> is_engine_event e) evs \<Longrightarrow> list_all (write_ok cfg) evs"
proof (induction evs)
  case Nil
  then show ?case by simp
next
  case (Cons e evs)
  then show ?case by (cases e) simp_all
qed

lemma map_rows_total: "map_rows (\<lambda>r. Inr (g r)) rs = Inr (map g rs)"
  by (induction rs) simp_all

lemma with_column_lit:
  "with_column env name (Lit v) df =
     Inr (df\<lparr>schema_fields := set_column (case_sensitive df) name ''StringType()'' (schema_fields df),
             rows := map (set_column (case_sensitive df) name v) (rows df)\<rparr>)"
  by (simp add: with_column_def map_rows_total)

lemma same_name_refl: "same_name cs a a"
  by (simp add: same_name_def)

lemma map_of_replaced:
  "list_ex (\<lambda>kv. same_name cs (fst kv) name) r \<Longrightarrow>
   map_of (map (\<lambda>kv. if same_name cs (fst kv) name then (name, v) else kv) r) name = Some v"
proof (induction r)
  case Nil
  then show ?case by simp
next
  case (Cons kv r)
  show ?case
  proof (cases "same_name cs (fst kv) name")
    case True
    then show ?thesis by simp
  next
    case False
    then have "fst kv \<noteq> name"
      using same_name_refl [of cs name] by auto
    with False Cons show ?thesis by (cases kv) auto
  qed
qed

lemma map_of_appended:
  "\<not> list_ex (\<lambda>kv. same_name cs (fst kv) name) r \<Longrightarrow> map_of (r @ [(name, v)]) name = Some v"
proof (induction r)
  case Nil
  then show ?case by simp
next
  case (Cons kv r)
  then have "fst kv \<noteq> name"
    using same_name_refl [of cs name] by auto
  with Cons show ?case by (cases kv) auto
qed

lemma map_of_set_column: "map_of (set_column cs name v r) name = Some v"
proof (cases "list_ex (\<lambda>kv. same_name cs (fst kv) name) r")
  case True
  then have e: "set_column cs name v r =
      map (\<lambda>kv. if same_name cs (fst kv) name then (name, v) else kv) r"
    by (simp add: set_column_def)
  show ?thesis unfolding e using True by (rule map_of_replaced)
next
  case False
  then have e: "set_column cs name v r = r @ [(name, v)]"
    by (simp add: set_column_def)
  show ?thesis unfolding e using False by (rule map_of_appended)
qed

lemma map_rows_Inr:
  "map_rows f rs = Inr rs' \<Longrightarrow> list_all2 (\<lambda>r r'. f r = Inr r') rs rs'"
proof (induction rs arbitrary: rs')
  case Nil
  then show ?case by simp
next
  case (Cons r rs)
  then show ?case by (auto split: sum.splits)
qed

lemma with_column_rows:
  assumes "with_column env name c df = Inr df'"
  shows "list_all2 (\<lambda>r r'. \<exists>v. eval_column env df c r = Inr v
            \<and> r' = set_column (case_sensitive df) name v r) (rows df) (rows df')"
proof -
  let ?f = "\<lambda>r. case eval_column env df c r of
                  Inl e \<Rightarrow> Inl e
                | Inr v \<Rightarrow> Inr (set_column (case_sensitive df) name v r)"
  from assms obtain rs where rs: "map_rows ?f (rows df) = Inr rs" and df': "rows df' = rs"
    by (auto simp: with_column_def split: sum.splits)
  have "list_all2 (\<lambda>r r'. ?f r = Inr r') (rows df) rs"
    using rs by (rule map_rows_Inr)
  then have "list_all2 (\<lambda>r r'. \<exists>v. eval_column env df c r = Inr v
            \<and> r' = set_column (case_sensitive df) name v r) (rows df) rs"
    by (rule list_all2_mono) (auto split: sum.splits)
  with df' show ?thesis by simp
qed

lemma df_with_metadata_eq:
  "df_with_metadata cfg env now dft =
     Inr (dft\<lparr>schema_fields :=
                 set_column (case_sensitive dft) ''_processing_date'' ''StringType()''
                   (set_column (case_sensitive dft) ''_export_timestamp'' ''StringType()''
                      (schema_fields dft)),
               rows :=
                 map (\<lambda>r. set_column (case_sensitive dft) ''_processing_date'' (PStr now)
                            (set_column (case_sensitive dft) ''_export_timestamp''
                               (PStr (timestamp cfg)) r))
                   (rows dft)\<rparr>)"
  by (simp add: df_with_metadata_def with_column_lit comp_def)

lemma df_with_metadata_total:
  "\<exists>dfm. df_with_metadata cfg env now dft = Inr dfm"
  by (simp add: df_with_metadata_def with_column_lit)

lemma process_try_shape:
  "\<exists>r evs. process_try cfg env rt ip tr = (r, tr @ ReadJson ip # evs)
     \<and> list_all (write_ok cfg) evs \<and> read_attempts evs = []"
proof -
  let ?tr1 = "tr @ [ReadJson ip]"
  show ?thesis
  proof (cases "read_json env tr ip")
    case (Inl e)
    then show ?thesis by (simp add: process_try_def Let_def)
  next
    case (Inr df)
    note df = this
    show ?thesis
    proof (cases "count_fault env ?tr1 df")
      case (Some e)
      with df show ?thesis by (simp add: process_try_def Let_def)
    next
      case None
      note cnt = this
      show ?thesis
      proof (cases "rows df = []")
        case True
        with df cnt show ?thesis by (simp add: process_try_def Let_def)
      next
        case False
        note ne = this
        show ?thesis
        proof (cases "df_with_tenant cfg env df")
          case (Inl e)
          with df cnt ne show ?thesis by (simp add: process_try_def Let_def)
        next
          case (Inr dft)
          note dft = this
          obtain dfm where dfm: "df_with_metadata cfg env (now_isoformat env ?tr1) dft = Inr dfm"
            using df_with_metadata_total by blast
          let ?keys = "[tenant_partition_key cfg, ''_export_timestamp'']"
          let ?out = "output_path cfg rt"
          show ?thesis
          proof (cases "parquet env ?tr1 Append ?keys ?out dfm")
            case (Some e)
            with df cnt ne dft dfm show ?thesis by (simp add: process_try_def Let_def)
          next
            case None
            obtain evs where evs: "create_glue_table cfg env (lower rt) ?out (schema_fields dfm)
                (?tr1 @ [WriteParquet Append ?keys ?out dfm]
                   @ [Print (''Successfully wrote '' @ rt @ '' to '' @ ?out)]) =
                (Inr (), (?tr1 @ [WriteParquet Append ?keys ?out dfm]
                   @ [Print (''Successfully wrote '' @ rt @ '' to '' @ ?out)]) @ evs)"
              and ne_evs: "list_all (\<lambda>e. \<not> is_engine_event e) evs"
              using create_glue_table_shape by blast
            from df cnt ne dft dfm None evs
            have "process_try cfg env rt ip tr =
                (Inr (), tr @ ReadJson ip # ([WriteParquet Append ?keys ?out dfm,
                   Print (''Successfully wrote '' @ rt @ '' to '' @ ?out)] @ evs))"
              by (simp add: process_try_def Let_def)
            moreover have "list_all (write_ok cfg) ([WriteParquet Append ?keys ?out dfm,
                   Print (''Successfully wrote '' @ rt @ '' to '' @ ?out)] @ evs)"
              using not_engine_write_ok [OF ne_evs] by simp
            moreover have "read_attempts ([WriteParquet Append ?keys ?out dfm,
                   Print (''Successfully wrote '' @ rt @ '' to '' @ ?out)] @ evs) = []"
              using not_engine_reads [OF ne_evs] by simp
            ultimately show ?thesis by blast
          qed
        qed
      qed
    qed
  qed
qed

lemma process_resource_type_shape:
  "\<exists>r evs. process_resource_type cfg env rt ip ob tr = (r, tr @ evs)
     \<and> list_all (write_ok cfg) evs \<and> read_attempts evs = [ip]"
proof -
  obtain r evs where a: "process_try cfg env rt ip (tr @ [Print (''Processing '' @ rt @ '' from '' @ ip)])
      = (r, (tr @ [Print (''Processing '' @ rt @ '' from '' @ ip)]) @ ReadJson ip # evs)"
    and b: "list_all (write_ok cfg) evs" and c: "read_attempts evs = []"
    using process_try_shape by blast
  show ?thesis
  proof (cases r)
    case (Inl e)
    with a have "process_resource_type cfg env rt ip ob tr =
        (Inl e, tr @ (Print (''Processing '' @ rt @ '' from '' @ ip) # ReadJson ip # evs
           @ [Print (''Error processing '' @ rt @ '': '' @ str_exn e)]))"
      by (simp add: process_resource_type_def)
    moreover have "list_all (write_ok cfg) (Print (''Processing '' @ rt @ '' from '' @ ip) # ReadJson ip # evs
           @ [Print (''Error processing '' @ rt @ '': '' @ str_exn e)])"
      using b by simp
    moreover have "read_attempts (Print (''Processing '' @ rt @ '' from '' @ ip) # ReadJson ip # evs
           @ [Print (''Error processing '' @ rt @ '': '' @ str_exn e)]) = [ip]"
      using c by (simp add: read_attempts_append)
    ultimately show ?thesis by blast
  next
    case (Inr u)
    with a have "process_resource_type cfg env rt ip ob tr =
        (Inr (), tr @ (Print (''Processing '' @ rt @ '' from '' @ ip) # ReadJson ip # evs))"
      by (simp add: process_resource_type_def)
    moreover have "list_all (write_ok cfg) (Print (''Processing '' @ rt @ '' from '' @ ip) # ReadJson ip # evs)"
      using b by simp
    moreover have "read_attempts (Print (''Processing '' @ rt @ '' from '' @ ip) # ReadJson ip # evs) = [ip]"
      using c by simp
    ultimately show ?thesis by blast
  qed
qed

lemma process_all_shape:
  "\<exists>evs. process_all cfg env rts tr = tr @ evs
     \<and> list_all (write_ok cfg) evs \<and> read_attempts evs = map (input_path_of cfg) rts"
proof (induction rts arbitrary: tr)
  case Nil
  then show ?case by simp
next
  case (Cons rt rts)
  obtain r evs where a: "process_resource_type cfg env rt (input_path_of cfg rt)
        (''s3://'' @ curated_bucket cfg @ ''/'') tr = (r, tr @ evs)"
    and b: "list_all (write_ok cfg) evs" and c: "read_attempts evs = [input_path_of cfg rt]"
    using process_resource_type_shape by blast
  show ?case
  proof (cases r)
    case (Inl e)
    let ?tr' = "(tr @ evs) @ [Print (''Failed to process '' @ rt @ '': '' @ str_exn e)]"
    obtain evs' where a': "process_all cfg env rts ?tr' = ?tr' @ evs'"
      and b': "list_all (write_ok cfg) evs'" and c': "read_attempts evs' = map (input_path_of cfg) rts"
      using Cons.IH by blast
    from a Inl a' have "process_all cfg env (rt # rts) tr =
        tr @ (evs @ [Print (''Failed to process '' @ rt @ '': '' @ str_exn e)] @ evs')"
      by simp
    moreover have "list_all (write_ok cfg) (evs @ [Print (''Failed to process '' @ rt @ '': '' @ str_exn e)] @ evs')"
      using b b' by simp
    moreover have "read_attempts (evs @ [Print (''Failed to process '' @ rt @ '': '' @ str_exn e)] @ evs')
        = map (input_path_of cfg) (rt # rts)"
      using c c' by (simp add: read_attempts_append)
    ultimately show ?thesis by blast
  next
    case (Inr u)
    obtain evs' where a': "process_all cfg env rts (tr @ evs) = (tr @ evs) @ evs'"
      and b': "list_all (write_ok cfg) evs'" and c': "read_attempts evs' = map (input_path_of cfg) rts"
      using Cons.IH by blast
    from a Inr a' have "process_all cfg env (rt # rts) tr = tr @ (evs @ evs')"
      by simp
    moreover have "list_all (write_ok cfg) (evs @ evs')"
      using b b' by simp
    moreover have "read_attempts (evs @ evs') = map (input_path_of cfg) (rt # rts)"
      using c c' by (simp add: read_attempts_append)
    ultimately show ?thesis by blast
  qed
qed

lemma process_all_append:
  "process_all cfg env (a @ b) tr = process_all cfg env b (process_all cfg env a tr)"
  by (induction a arbitrary: tr) (simp_all split: prod.splits sum.splits)

lemma create_glue_table_fst: "fst (create_glue_table cfg env n l fs tr) = Inr ()"
  using create_glue_table_shape [of cfg env n l fs tr] by auto

lemma process_try_Inl:
  "fst (process_try cfg env rt ip tr) = Inl e \<Longrightarrow>
   list_all is_engine_event (new_events tr (snd (process_try cfg env rt ip tr)))"
  by (auto simp: process_try_def Let_def create_glue_table_fst split: sum.splits option.splits if_splits)

lemma example_lower:
  "lower ''id'' = ''id''"
  "lower ''meta'' = ''meta''"
  "lower ''tenant_id'' = ''tenant_id''"
  "lower ''_export_timestamp'' = ''_export_timestamp''"
  "lower ''_processing_date'' = ''_processing_date''"
  "lower ''StringType()'' = ''stringtype()''"
  "lower ''StructType()'' = ''structtype()''"
  "lower ''A'' = ''a''"
  "lower ''B'' = ''b''"
  "lower ''C'' = ''c''"
  "lower ''Patient'' = ''patient''"
  by (simp_all add: lower_def lower_char_def upper_case_def lower_case_def)

lemmas example_defs =
  main_over_def process_resource_type_def process_try_def Let_def example_config_def
  example_env_def example_df_def example_row1_def example_row2_def df_with_tenant_def
  df_with_metadata_def with_column_def tenant_column_def create_glue_table_def
  create_glue_table_try_def create_or_update_def set_column_def same_name_def example_lower
  output_path_def input_path_of_def extract_tenant_id_def try_scan_def
  tenant_label_def TENANT_CLAIM_SYSTEM_def str_bool_def create_table_input_def
  update_table_input_def database_name_def partition_keys_def new_events_def

lemma write_ok_mem:
  "list_all (write_ok cfg) evs \<Longrightarrow> WriteParquet m ks p d \<in> set evs \<Longrightarrow>
   m = Append \<and> ks = [tenant_partition_key cfg, ''_export_timestamp'']"
  by (induction evs) auto

lemma main_over_shape:
  "\<exists>evs. main_over cfg env rts =
      [Print ''Starting HealthLake ETL processing'',
       Print (''Export path: '' @ export_path cfg),
       Print (''Multi-tenant mode: '' @ str_bool (enable_multi_tenant cfg))]
      @ evs @ [Print ''ETL processing completed successfully'']
    \<and> list_all (write_ok cfg) evs \<and> read_attempts evs = map (input_path_of cfg) rts"
  using process_all_shape [of cfg env rts "[Print ''Starting HealthLake ETL processing'',
       Print (''Export path: '' @ export_path cfg),
       Print (''Multi-tenant mode: '' @ str_bool (enable_multi_tenant cfg))]"]
  by (auto simp: main_over_def)

section \<open>Properties of tagging, writing and the orchestrator\<close>

text \<open>
  C3. In single-tenant mode (the multi-tenant flag false) the column added under the
  tenant partition key is the literal \<open>"default"\<close>: the expression calls no Python
  function, so the extractor is not invoked; tagging succeeds on every data frame and
  gives every record the tenant value \<open>"default"\<close>; and the result is the same for every
  behaviour of the engine, so it does not depend on what the records' security labels
  hold or on whether they can be resolved at all.
\<close>

theorem single_tenant_default:
  assumes "\<not> enable_multi_tenant cfg"
  shows "\<not> invokes_udf (tenant_column cfg)
     \<and> df_with_tenant cfg env df =
         Inr (df\<lparr>schema_fields :=
                   set_column (case_sensitive df) (tenant_partition_key cfg) ''StringType()''
                     (schema_fields df),
                 rows := map (set_column (case_sensitive df) (tenant_partition_key cfg)
                                (PStr ''default'')) (rows df)\<rparr>)
     \<and> df_with_tenant cfg env df = df_with_tenant cfg env' df
     \<and> (\<exists>dft. df_with_tenant cfg env df = Inr dft \<and> length (rows dft) = length (rows df)
           \<and> list_all (\<lambda>r. map_of r (tenant_partition_key cfg) = Some (PStr ''default'')) (rows dft))"
proof -
  have col: "tenant_column cfg = Lit (PStr ''default'')"
    using assms by (simp add: tenant_column_def)
  have eq: "\<And>env. df_with_tenant cfg env df =
         Inr (df\<lparr>schema_fields :=
                   set_column (case_sensitive df) (tenant_partition_key cfg) ''StringType()''
                     (schema_fields df),
                 rows := map (set_column (case_sensitive df) (tenant_partition_key cfg)
                                (PStr ''default'')) (rows df)\<rparr>)"
    by (simp add: df_with_tenant_def col with_column_lit)
  have tagged: "list_all (\<lambda>r. map_of r (tenant_partition_key cfg) = Some (PStr ''default''))
      (map (set_column (case_sensitive df) (tenant_partition_key cfg) (PStr ''default'')) (rows df))"
    by (simp add: list_all_iff map_of_set_column)
  show ?thesis
    using tagged by (simp add: col eq)
qed

theorem single_tenant_default_witness:
  "\<not> enable_multi_tenant (example_config\<lparr>enable_multi_tenant := False\<rparr>)
   \<and> \<not> invokes_udf (tenant_column (example_config\<lparr>enable_multi_tenant := False\<rparr>))
   \<and> df_with_tenant (example_config\<lparr>enable_multi_tenant := False\<rparr>)
        (example_env\<lparr>col_value := (\<lambda>df name r. Inl (Exn AnalysisException ''cannot resolve''))\<rparr>)
        example_df
       = Inr \<lparr>case_sensitive = False,
              schema_fields = [(''id'', ''StringType()''), (''meta'', ''StructType()''),
                                (''tenant_id'', ''StringType()'')],
              rows = [example_row1 @ [(''tenant_id'', PStr ''default'')],
                      example_row2 @ [(''tenant_id'', PStr ''default'')]]\<rparr>"
proof -
  have h: "\<not> enable_multi_tenant (example_config\<lparr>enable_multi_tenant := False\<rparr>)"
    by simp
  show ?thesis
    using h single_tenant_default [OF h,
        of "example_env\<lparr>col_value := (\<lambda>df name r. Inl (Exn AnalysisException ''cannot resolve''))\<rparr>"
           example_df example_env]
    by (simp add: example_config_def example_df_def example_row1_def example_row2_def
        set_column_def same_name_def example_lower)
qed

text \<open>
  C5. When the data set read for a resource type is empty (the read returns a data frame
  without rows and the count succeeds), \<open>process_resource_type\<close> returns normally and the
  only events are its two printed lines and the read: no write and no catalog call.
\<close>

theorem empty_input_noop:
  assumes "read_json env (tr @ [Print (''Processing '' @ rt @ '' from '' @ ip)]) ip = Inr df"
    and "count_fault env (tr @ [Print (''Processing '' @ rt @ '' from '' @ ip), ReadJson ip]) df = None"
    and "rows df = []"
  shows "process_resource_type cfg env rt ip ob tr =
           (Inr (), tr @ [Print (''Processing '' @ rt @ '' from '' @ ip), ReadJson ip,
                          Print (''No data found for '' @ rt)])"
  using assms by (simp add: process_resource_type_def process_try_def Let_def)

theorem empty_input_noop_witness:
  "read_json (example_env\<lparr>read_json := (\<lambda>tr path. Inr (example_df\<lparr>rows := []\<rparr>))\<rparr>)
      ([] @ [Print (''Processing '' @ ''Goal'' @ '' from '' @ ''s3://raw/export/Goal*.ndjson'')])
      ''s3://raw/export/Goal*.ndjson'' = Inr (example_df\<lparr>rows := []\<rparr>)
   \<and> count_fault (example_env\<lparr>read_json := (\<lambda>tr path. Inr (example_df\<lparr>rows := []\<rparr>))\<rparr>)
      ([] @ [Print (''Processing '' @ ''Goal'' @ '' from '' @ ''s3://raw/export/Goal*.ndjson''),
             ReadJson ''s3://raw/export/Goal*.ndjson''])
      (example_df\<lparr>rows := []\<rparr>) = None
   \<and> rows (example_df\<lparr>rows := []\<rparr>) = []
   \<and> process_resource_type example_config
        (example_env\<lparr>read_json := (\<lambda>tr path. Inr (example_df\<lparr>rows := []\<rparr>))\<rparr>)
        ''Goal'' ''s3://raw/export/Goal*.ndjson'' ''s3://curated/'' []
       = (Inr (), [Print ''Processing Goal from s3://raw/export/Goal*.ndjson'',
                   ReadJson ''s3://raw/export/Goal*.ndjson'',
                   Print ''No data found for Goal''])"
proof -
  let ?env = "example_env\<lparr>read_json := (\<lambda>tr path. Inr (example_df\<lparr>rows := []\<rparr>))\<rparr>"
  let ?ip = "''s3://raw/export/Goal*.ndjson''"
  have h1: "read_json ?env ([] @ [Print (''Processing '' @ ''Goal'' @ '' from '' @ ?ip)]) ?ip
      = Inr (example_df\<lparr>rows := []\<rparr>)"
    by simp
  have h2: "count_fault ?env ([] @ [Print (''Processing '' @ ''Goal'' @ '' from '' @ ?ip), ReadJson ?ip])
      (example_df\<lparr>rows := []\<rparr>) = None"
    by (simp add: example_env_def)
  have h3: "rows (example_df\<lparr>rows := []\<rparr>) = []"
    by simp
  show ?thesis
    using h1 h2 h3 empty_input_noop [OF h1 h2 h3, of example_config "''s3://curated/''"]
    by simp
qed

text \<open>
  C6. Every write made while processing a resource type, and so every write of a whole
  run, is in append mode and partitioned by exactly two keys in this order: the tenant
  partition key, then \<open>_export_timestamp\<close>.
\<close>

theorem writes_append_partitioned:
  "(WriteParquet m ks p d \<in> set (new_events tr (snd (process_resource_type cfg env rt ip ob tr)))
      \<longrightarrow> m = Append \<and> ks = [tenant_partition_key cfg, ''_export_timestamp''])
   \<and> (WriteParquet m' ks' p' d' \<in> set (main_over cfg env rts)
      \<longrightarrow> m' = Append \<and> ks' = [tenant_partition_key cfg, ''_export_timestamp''])"
proof -
  have one: "m = Append \<and> ks = [tenant_partition_key cfg, ''_export_timestamp'']"
    if w: "WriteParquet m ks p d \<in> set (new_events tr (snd (process_resource_type cfg env rt ip ob tr)))"
  proof -
    obtain r evs where a: "process_resource_type cfg env rt ip ob tr = (r, tr @ evs)"
      and b: "list_all (write_ok cfg) evs"
      using process_resource_type_shape by blast
    from w a have "WriteParquet m ks p d \<in> set evs" by simp
    with b show ?thesis by (rule write_ok_mem)
  qed
  have run: "m' = Append \<and> ks' = [tenant_partition_key cfg, ''_export_timestamp'']"
    if w: "WriteParquet m' ks' p' d' \<in> set (main_over cfg env rts)"
  proof -
    obtain evs where a: "main_over cfg env rts =
        [Print ''Starting HealthLake ETL processing'',
         Print (''Export path: '' @ export_path cfg),
         Print (''Multi-tenant mode: '' @ str_bool (enable_multi_tenant cfg))]
        @ evs @ [Print ''ETL processing completed successfully'']"
      and b: "list_all (write_ok cfg) evs"
      using main_over_shape by blast
    from w a have "WriteParquet m' ks' p' d' \<in> set evs" by auto
    with b show ?thesis by (rule write_ok_mem)
  qed
  from one run show ?thesis by blast
qed

theorem writes_append_partitioned_witness:
  "WriteParquet Append [''tenant_id'', ''_export_timestamp''] ''s3://curated/patient/''
      example_df_with_metadata
     \<in> set (new_events [] (snd (process_resource_type example_config example_env ''Patient''
               ''s3://raw/export/Patient*.ndjson'' ''s3://curated/'' [])))
   \<and> WriteParquet Append [''tenant_id'', ''_export_timestamp''] ''s3://curated/patient/''
      example_df_with_metadata
     \<in> set (main_over example_config example_env [''Patient''])
   \<and> [''tenant_id'', ''_export_timestamp''] = [tenant_partition_key example_config, ''_export_timestamp'']"
  using writes_append_partitioned [of Append "[''tenant_id'', ''_export_timestamp'']"
      "''s3://curated/patient/''" example_df_with_metadata "[]" example_config example_env
      "''Patient''" "''s3://raw/export/Patient*.ndjson''" "''s3://curated/''"
      Append "[''tenant_id'', ''_export_timestamp'']" "''s3://curated/patient/''"
      example_df_with_metadata "[''Patient'']"]
  by (simp add: example_defs example_df_with_metadata_def)

lemma df_with_metadata_tagged:
  "df_with_metadata cfg env now dft = Inr (tagged_with_metadata cfg now dft)"
  by (simp add: df_with_metadata_eq tagged_with_metadata_def)

lemma df_with_tenant_rows:
  "df_with_tenant cfg env df = Inr dft \<Longrightarrow>
   list_all2 (\<lambda>r r'. \<exists>v. eval_column env df (tenant_column cfg) r = Inr v
       \<and> r' = set_column (case_sensitive df) (tenant_partition_key cfg) v r) (rows df) (rows dft)"
  unfolding df_with_tenant_def by (rule with_column_rows)

lemma process_resource_type_full_chain:
  assumes R: "\<And>tr. read_json env tr ip = Inr df"
    and ne: "rows df \<noteq> []"
    and C: "\<And>tr. count_fault env tr df = None"
    and T: "df_with_tenant cfg env df = Inr dft"
    and W: "\<And>tr d. parquet env tr Append [tenant_partition_key cfg, ''_export_timestamp'']
                 (output_path cfg rt) d = None"
    and B: "\<And>tr. boto3_client env tr ''glue'' = None"
  shows "\<exists>now evs. process_resource_type cfg env rt ip ob tr =
     (Inr (), tr @ [Print (''Processing '' @ rt @ '' from '' @ ip), ReadJson ip,
        WriteParquet Append [tenant_partition_key cfg, ''_export_timestamp''] (output_path cfg rt)
          (tagged_with_metadata cfg now dft),
        Print (''Successfully wrote '' @ rt @ '' to '' @ output_path cfg rt),
        CreateTable database_name
          (create_table_input cfg (lower rt) (output_path cfg rt)
             (schema_fields (tagged_with_metadata cfg now dft)))] @ evs)"
proof -
  let ?tr0 = "tr @ [Print (''Processing '' @ rt @ '' from '' @ ip)]"
  let ?tr1 = "?tr0 @ [ReadJson ip]"
  let ?keys = "[tenant_partition_key cfg, ''_export_timestamp'']"
  let ?out = "output_path cfg rt"
  let ?now = "now_isoformat env ?tr1"
  let ?dfm = "tagged_with_metadata cfg ?now dft"
  have dfm: "df_with_metadata cfg env ?now dft = Inr ?dfm"
    by (rule df_with_metadata_tagged)
  let ?tr3 = "?tr1 @ [WriteParquet Append ?keys ?out ?dfm]
                @ [Print (''Successfully wrote '' @ rt @ '' to '' @ ?out)]"
  obtain evs where evs: "create_glue_table cfg env (lower rt) ?out (schema_fields ?dfm) ?tr3 =
      (Inr (), ?tr3 @ CreateTable database_name
                  (create_table_input cfg (lower rt) ?out (schema_fields ?dfm)) # evs)"
    using create_glue_table_shape_client [OF B] by blast
  have "process_try cfg env rt ip ?tr0 =
      (Inr (), ?tr3 @ CreateTable database_name
                  (create_table_input cfg (lower rt) ?out (schema_fields ?dfm)) # evs)"
    using R [of ?tr0] ne C [of ?tr1] T dfm W [of ?tr1 ?dfm] evs
    by (simp add: process_try_def Let_def)
  then have "process_resource_type cfg env rt ip ob tr =
     (Inr (), tr @ [Print (''Processing '' @ rt @ '' from '' @ ip), ReadJson ip,
        WriteParquet Append ?keys ?out ?dfm,
        Print (''Successfully wrote '' @ rt @ '' to '' @ ?out),
        CreateTable database_name
          (create_table_input cfg (lower rt) ?out (schema_fields ?dfm))] @ evs)"
    by (simp add: process_resource_type_def)
  then show ?thesis by blast
qed

lemma process_all_extends: "\<exists>evs. process_all cfg env rts tr = tr @ evs"
  using process_all_shape [of cfg env rts tr] by blast

text \<open>
  C4. For every list of resource types and whatever the collaborators do, the run ends
  with the completion line and has attempted each resource type, in order (one read per
  type). A resource type whose own collaborators answer normally gets its full chain
  wherever it stands in the list, that is whatever happened to the types before it,
  failures included: its data is read; every record is tagged with the value of the tenant
  column on it; the tagged frame, with the export timestamp and the processing date set on
  every record, is written; and the create call for its table is made with that frame's
  schema.
\<close>

theorem continue_on_error:
  "last (main_over cfg env rts) = Print ''ETL processing completed successfully''
   \<and> read_attempts (main_over cfg env rts) = map (input_path_of cfg) rts
   \<and> last (main cfg env) = Print ''ETL processing completed successfully''
   \<and> read_attempts (main cfg env) = map (input_path_of cfg) resource_types
   \<and> ((\<forall>tr. read_json env tr (input_path_of cfg rt) = Inr df) \<and> rows df \<noteq> []
        \<and> (\<forall>tr. count_fault env tr df = None)
        \<and> df_with_tenant cfg env df = Inr dft
        \<and> (\<forall>tr d. parquet env tr Append [tenant_partition_key cfg, ''_export_timestamp'']
                     (output_path cfg rt) d = None)
        \<and> (\<forall>tr. boto3_client env tr ''glue'' = None)
      \<longrightarrow> list_all2 (\<lambda>r r'. \<exists>v. eval_column env df (tenant_column cfg) r = Inr v
                \<and> r' = set_column (case_sensitive df) (tenant_partition_key cfg) v r)
             (rows df) (rows dft)
          \<and> (\<exists>now before after. main_over cfg env (earlier @ rt # later) =
             before @ [Print (''Processing '' @ rt @ '' from '' @ input_path_of cfg rt),
                       ReadJson (input_path_of cfg rt),
                       WriteParquet Append [tenant_partition_key cfg, ''_export_timestamp'']
                         (output_path cfg rt) (tagged_with_metadata cfg now dft),
                       Print (''Successfully wrote '' @ rt @ '' to '' @ output_path cfg rt),
                       CreateTable database_name
                         (create_table_input cfg (lower rt) (output_path cfg rt)
                            (schema_fields (tagged_with_metadata cfg now dft)))]
               @ after
             \<and> last after = Print ''ETL processing completed successfully''))"
proof -
  have compl: "last (main_over cfg env rts) = Print ''ETL processing completed successfully''"
    by (simp add: main_over_def)
  obtain evs where a: "main_over cfg env rts =
      [Print ''Starting HealthLake ETL processing'',
       Print (''Export path: '' @ export_path cfg),
       Print (''Multi-tenant mode: '' @ str_bool (enable_multi_tenant cfg))]
      @ evs @ [Print ''ETL processing completed successfully'']"
    and c: "read_attempts evs = map (input_path_of cfg) rts"
    using main_over_shape by blast
  have reads: "read_attempts (main_over cfg env rts) = map (input_path_of cfg) rts"
    using c by (simp add: a read_attempts_append)
  have tagged: "list_all2 (\<lambda>r r'. \<exists>v. eval_column env df (tenant_column cfg) r = Inr v
                \<and> r' = set_column (case_sensitive df) (tenant_partition_key cfg) v r)
             (rows df) (rows dft)"
    if T: "df_with_tenant cfg env df = Inr dft"
    using T by (rule df_with_tenant_rows)
  have chain: "\<exists>now before after. main_over cfg env (earlier @ rt # later) =
             before @ [Print (''Processing '' @ rt @ '' from '' @ input_path_of cfg rt),
                       ReadJson (input_path_of cfg rt),
                       WriteParquet Append [tenant_partition_key cfg, ''_export_timestamp'']
                         (output_path cfg rt) (tagged_with_metadata cfg now dft),
                       Print (''Successfully wrote '' @ rt @ '' to '' @ output_path cfg rt),
                       CreateTable database_name
                         (create_table_input cfg (lower rt) (output_path cfg rt)
                            (schema_fields (tagged_with_metadata cfg now dft)))]
               @ after
             \<and> last after = Print ''ETL processing completed successfully''"
    if R: "\<forall>tr. read_json env tr (input_path_of cfg rt) = Inr df" and ne: "rows df \<noteq> []"
      and C: "\<forall>tr. count_fault env tr df = None"
      and T: "df_with_tenant cfg env df = Inr dft"
      and W: "\<forall>tr d. parquet env tr Append [tenant_partition_key cfg, ''_export_timestamp'']
                     (output_path cfg rt) d = None"
      and B: "\<forall>tr. boto3_client env tr ''glue'' = None"
  proof -
    let ?init = "[Print ''Starting HealthLake ETL processing'',
       Print (''Export path: '' @ export_path cfg),
       Print (''Multi-tenant mode: '' @ str_bool (enable_multi_tenant cfg))]"
    obtain e1 where e1: "process_all cfg env earlier ?init = ?init @ e1"
      using process_all_extends by blast
    obtain now e2 where e2: "process_resource_type cfg env rt (input_path_of cfg rt)
          (''s3://'' @ curated_bucket cfg @ ''/'') (?init @ e1) =
       (Inr (), (?init @ e1) @ [Print (''Processing '' @ rt @ '' from '' @ input_path_of cfg rt),
          ReadJson (input_path_of cfg rt),
          WriteParquet Append [tenant_partition_key cfg, ''_export_timestamp''] (output_path cfg rt)
            (tagged_with_metadata cfg now dft),
          Print (''Successfully wrote '' @ rt @ '' to '' @ output_path cfg rt),
          CreateTable database_name
            (create_table_input cfg (lower rt) (output_path cfg rt)
               (schema_fields (tagged_with_metadata cfg now dft)))] @ e2)"
      using process_resource_type_full_chain [of env "input_path_of cfg rt" df cfg dft rt]
        R ne C T W B
      by blast
    let ?chain = "[Print (''Processing '' @ rt @ '' from '' @ input_path_of cfg rt),
          ReadJson (input_path_of cfg rt),
          WriteParquet Append [tenant_partition_key cfg, ''_export_timestamp''] (output_path cfg rt)
            (tagged_with_metadata cfg now dft),
          Print (''Successfully wrote '' @ rt @ '' to '' @ output_path cfg rt),
          CreateTable database_name
            (create_table_input cfg (lower rt) (output_path cfg rt)
               (schema_fields (tagged_with_metadata cfg now dft)))]"
    obtain e3 where e3: "process_all cfg env later ((?init @ e1) @ ?chain @ e2)
        = ((?init @ e1) @ ?chain @ e2) @ e3"
      using process_all_extends by blast
    have "process_all cfg env (earlier @ rt # later) ?init = ((?init @ e1) @ ?chain @ e2) @ e3"
      using e1 e2 e3 by (simp add: process_all_append)
    then have "main_over cfg env (earlier @ rt # later) =
        (?init @ e1) @ ?chain @ (e2 @ e3 @ [Print ''ETL processing completed successfully''])"
      by (simp add: main_over_def)
    moreover have "last (e2 @ e3 @ [Print ''ETL processing completed successfully''])
        = Print ''ETL processing completed successfully''"
      by simp
    ultimately show ?thesis by blast
  qed
  have main_compl: "last (main cfg env) = Print ''ETL processing completed successfully''"
    by (simp add: main_def main_over_def)
  obtain evs' where a': "main_over cfg env resource_types =
      [Print ''Starting HealthLake ETL processing'',
       Print (''Export path: '' @ export_path cfg),
       Print (''Multi-tenant mode: '' @ str_bool (enable_multi_tenant cfg))]
      @ evs' @ [Print ''ETL processing completed successfully'']"
    and c': "read_attempts evs' = map (input_path_of cfg) resource_types"
    using main_over_shape by blast
  have main_reads: "read_attempts (main cfg env) = map (input_path_of cfg) resource_types"
    using c' by (simp add: main_def a' read_attempts_append)
  from compl reads main_compl main_reads tagged chain show ?thesis by blast
qed

theorem continue_on_error_witness:
  "(\<forall>tr. read_json example_env tr (input_path_of example_config ''C'') = Inr example_df)
   \<and> rows example_df \<noteq> []
   \<and> (\<forall>tr. count_fault example_env tr example_df = None)
   \<and> df_with_tenant example_config example_env example_df = Inr example_df_with_tenant
   \<and> (\<forall>tr d. parquet example_env tr Append [tenant_partition_key example_config, ''_export_timestamp'']
                 (output_path example_config ''C'') d = None)
   \<and> (\<forall>tr. boto3_client example_env tr ''glue'' = None)
   \<and> parquet example_env [] Append [tenant_partition_key example_config, ''_export_timestamp'']
        (output_path example_config ''B'') example_df_with_metadata
        = Some (Exn OtherError ''write failed'')
   \<and> Print ''Failed to process B: write failed'' \<in> set (main_over example_config example_env [''A'', ''B'', ''C''])
   \<and> CreateTable database_name
        (create_table_input example_config ''b'' (output_path example_config ''B'')
           (schema_fields example_df_with_metadata))
        \<notin> set (main_over example_config example_env [''A'', ''B'', ''C''])
   \<and> tagged_with_metadata example_config ''2024-01-02T03:04:05'' example_df_with_tenant
        = example_df_with_metadata
   \<and> WriteParquet Append [''tenant_id'', ''_export_timestamp''] ''s3://curated/c/''
        example_df_with_metadata
        \<in> set (main_over example_config example_env [''A'', ''B'', ''C''])
   \<and> CreateTable database_name
        (create_table_input example_config ''c'' ''s3://curated/c/''
           (schema_fields example_df_with_metadata))
        \<in> set (main_over example_config example_env [''A'', ''B'', ''C''])
   \<and> read_attempts (main_over example_config example_env [''A'', ''B'', ''C''])
        = [''s3://raw/export/A*.ndjson'', ''s3://raw/export/B*.ndjson'', ''s3://raw/export/C*.ndjson'']
   \<and> last (main_over example_config example_env [''A'', ''B'', ''C''])
        = Print ''ETL processing completed successfully''
   \<and> list_all2 (\<lambda>r r'. \<exists>v. eval_column example_env example_df (tenant_column example_config) r = Inr v
            \<and> r' = set_column (case_sensitive example_df) (tenant_partition_key example_config) v r)
        (rows example_df) (rows example_df_with_tenant)
   \<and> (\<exists>now before after. main_over example_config example_env ([''A'', ''B''] @ ''C'' # []) =
         before @ [Print (''Processing '' @ ''C'' @ '' from '' @ input_path_of example_config ''C''),
                   ReadJson (input_path_of example_config ''C''),
                   WriteParquet Append [tenant_partition_key example_config, ''_export_timestamp'']
                     (output_path example_config ''C'')
                     (tagged_with_metadata example_config now example_df_with_tenant),
                   Print (''Successfully wrote '' @ ''C'' @ '' to '' @ output_path example_config ''C''),
                   CreateTable database_name
                     (create_table_input example_config (lower ''C'') (output_path example_config ''C'')
                        (schema_fields (tagged_with_metadata example_config now example_df_with_tenant)))]
           @ after
         \<and> last after = Print ''ETL processing completed successfully'')"
proof -
  have h: "(\<forall>tr. read_json example_env tr (input_path_of example_config ''C'') = Inr example_df)
     \<and> rows example_df \<noteq> []
     \<and> (\<forall>tr. count_fault example_env tr example_df = None)
     \<and> df_with_tenant example_config example_env example_df = Inr example_df_with_tenant
     \<and> (\<forall>tr d. parquet example_env tr Append [tenant_partition_key example_config, ''_export_timestamp'']
                 (output_path example_config ''C'') d = None)
     \<and> (\<forall>tr. boto3_client example_env tr ''glue'' = None)"
    by (simp add: example_defs example_df_with_tenant_def)
  have b: "parquet example_env [] Append [tenant_partition_key example_config, ''_export_timestamp'']
        (output_path example_config ''B'') example_df_with_metadata
        = Some (Exn OtherError ''write failed'')"
    by (simp add: example_defs)
  have f: "Print ''Failed to process B: write failed'' \<in> set (main_over example_config example_env [''A'', ''B'', ''C''])"
    by (simp add: example_defs)
  have g: "CreateTable database_name
        (create_table_input example_config ''b'' (output_path example_config ''B'')
           (schema_fields example_df_with_metadata))
        \<notin> set (main_over example_config example_env [''A'', ''B'', ''C''])"
    by (simp add: example_defs example_df_with_metadata_def)
  have m: "tagged_with_metadata example_config ''2024-01-02T03:04:05'' example_df_with_tenant
        = example_df_with_metadata"
    by (simp add: tagged_with_metadata_def example_df_with_tenant_def example_df_with_metadata_def
        example_config_def example_row1_def example_row2_def set_column_def same_name_def
        example_lower)
  have w: "WriteParquet Append [''tenant_id'', ''_export_timestamp''] ''s3://curated/c/''
        example_df_with_metadata
        \<in> set (main_over example_config example_env [''A'', ''B'', ''C''])"
    by (simp add: example_defs example_df_with_metadata_def)
  have k: "CreateTable database_name
        (create_table_input example_config ''c'' ''s3://curated/c/''
           (schema_fields example_df_with_metadata))
        \<in> set (main_over example_config example_env [''A'', ''B'', ''C''])"
    by (simp add: example_defs example_df_with_metadata_def)
  note t = continue_on_error [of example_config example_env "[''A'', ''B'', ''C'']" "''C''"
      example_df example_df_with_tenant "[''A'', ''B'']" "[]"]
  have r: "read_attempts (main_over example_config example_env [''A'', ''B'', ''C''])
        = [''s3://raw/export/A*.ndjson'', ''s3://raw/export/B*.ndjson'', ''s3://raw/export/C*.ndjson'']"
    using t by (simp add: input_path_of_def example_config_def)
  from t h b f g m w k r show ?thesis by blast
qed

lemma glue_column_name: "dict_get (glue_column field) ''Name'' = PStr (fst field)"
  by (simp add: glue_column_def)

section \<open>Properties of catalog synchronization\<close>

text \<open>
  C7. The columns of the table description are the schema's fields other than the tenant
  partition key and \<open>_export_timestamp\<close>, in the schema's order; neither name occurs among
  the columns, in the create call's description or in the update call's; and the
  partition keys are exactly these two, tenant first.
\<close>

theorem table_description_columns:
  "glue_schema_loop cfg sfields [] = map glue_column (filter (keep_field cfg) sfields)
   \<and> PStr (tenant_partition_key cfg)
        \<notin> set (map (\<lambda>c. dict_get c ''Name'') (glue_schema_loop cfg sfields []))
   \<and> PStr ''_export_timestamp''
        \<notin> set (map (\<lambda>c. dict_get c ''Name'') (glue_schema_loop cfg sfields []))
   \<and> dict_get (dict_get (create_table_input cfg n l sfields) ''StorageDescriptor'') ''Columns''
        = PList (glue_schema_loop cfg sfields [])
   \<and> dict_get (dict_get (update_table_input cfg n l sfields) ''StorageDescriptor'') ''Columns''
        = PList (glue_schema_loop cfg sfields [])
   \<and> dict_get (create_table_input cfg n l sfields) ''PartitionKeys'' = PList (partition_keys cfg)
   \<and> dict_get (update_table_input cfg n l sfields) ''PartitionKeys'' = PList (partition_keys cfg)
   \<and> map (\<lambda>c. dict_get c ''Name'') (partition_keys cfg)
        = [PStr (tenant_partition_key cfg), PStr ''_export_timestamp'']"
proof -
  have eq: "glue_schema_loop cfg sfields [] = map glue_column (filter (keep_field cfg) sfields)"
    by (simp add: glue_schema_loop_eq)
  have names: "map (\<lambda>c. dict_get c ''Name'') (glue_schema_loop cfg sfields [])
      = map (\<lambda>f. PStr (fst f)) (filter (keep_field cfg) sfields)"
    by (simp add: eq glue_column_name comp_def)
  have a: "PStr (tenant_partition_key cfg)
        \<notin> set (map (\<lambda>c. dict_get c ''Name'') (glue_schema_loop cfg sfields []))"
    unfolding names by (auto simp: keep_field_def)
  have b: "PStr ''_export_timestamp''
        \<notin> set (map (\<lambda>c. dict_get c ''Name'') (glue_schema_loop cfg sfields []))"
    unfolding names by (auto simp: keep_field_def)
  show ?thesis
    using eq a b by (simp add: create_table_input_def update_table_input_def partition_keys_def)
qed

theorem table_description_columns_witness:
  "glue_schema_loop example_config (schema_fields example_df_with_metadata) []
     = [PDict [(''Name'', PStr ''id''), (''Type'', PStr ''stringtype()'')],
        PDict [(''Name'', PStr ''meta''), (''Type'', PStr ''structtype()'')],
        PDict [(''Name'', PStr ''_processing_date''), (''Type'', PStr ''stringtype()'')]]
   \<and> dict_get (create_table_input example_config ''patient'' ''s3://curated/patient/''
                  (schema_fields example_df_with_metadata)) ''PartitionKeys''
     = PList [PDict [(''Name'', PStr ''tenant_id''), (''Type'', PStr ''string'')],
              PDict [(''Name'', PStr ''_export_timestamp''), (''Type'', PStr ''string'')]]"
  using table_description_columns [of example_config "schema_fields example_df_with_metadata"
      "''patient''" "''s3://curated/patient/''"]
  by (simp add: example_config_def example_df_with_metadata_def keep_field_def glue_column_def
      example_lower partition_keys_def)

lemma create_glue_table_cases:
  "create_glue_table cfg env n l fs tr =
    (Inr (),
     tr @
      (case boto3_client env tr ''glue'' of
         Some e0 \<Rightarrow> [Print (''Error creating/updating Glue table '' @ n @ '': '' @ str_exn e0)]
       | None \<Rightarrow>
          CreateTable database_name (create_table_input cfg n l fs) #
          (case create_table env tr database_name (create_table_input cfg n l fs) of
             None \<Rightarrow> [Print (''Created Glue table: '' @ n)]
           | Some e \<Rightarrow>
              if class_of e = AlreadyExistsException then
                Print (''Table '' @ n @ '' already exists, updating...'') #
                UpdateTable database_name (update_table_input cfg n l fs) #
                (case update_table env
                        (tr @ [CreateTable database_name (create_table_input cfg n l fs),
                               Print (''Table '' @ n @ '' already exists, updating...'')])
                        database_name (update_table_input cfg n l fs) of
                   None \<Rightarrow> []
                 | Some e' \<Rightarrow>
                     [Print (''Error creating/updating Glue table '' @ n @ '': '' @ str_exn e')])
              else [Print (''Error creating/updating Glue table '' @ n @ '': '' @ str_exn e)])))"
  by (simp add: create_glue_table_def create_glue_table_try_def create_or_update_cases
      split: option.splits)

text \<open>
  C8, as stated, fails. When the catalog reports that the table exists, the description
  sent by the update call carries the partition keys as well, not only the columns and
  the location. And a create is not always attempted first: when the catalog client
  cannot be obtained, no call is made at all.
\<close>

theorem update_input_counterexample:
  "update_calls (snd (create_glue_table example_config example_env ''patient'' ''s3://curated/patient/''
        (schema_fields example_df_with_metadata)
        [CreateTable database_name
           (create_table_input example_config ''patient'' ''s3://curated/patient/''
              (schema_fields example_df_with_metadata))]))
     = [(database_name, update_table_input example_config ''patient'' ''s3://curated/patient/''
          (schema_fields example_df_with_metadata))]
   \<and> dict_keys (update_table_input example_config ''patient'' ''s3://curated/patient/''
          (schema_fields example_df_with_metadata))
     = [''Name'', ''StorageDescriptor'', ''PartitionKeys'']
   \<and> \<not> carries_only_columns_and_location
          (update_table_input example_config ''patient'' ''s3://curated/patient/''
             (schema_fields example_df_with_metadata))
   \<and> snd (create_glue_table example_config example_env_no_client ''patient''
          ''s3://curated/patient/'' (schema_fields example_df_with_metadata) [])
     = [Print ''Error creating/updating Glue table patient: NoRegionError'']"
  by (simp add: create_glue_table_cases example_env_def example_env_no_client_def
      create_table_input_def update_table_input_def carries_only_columns_and_location_def)

text \<open>
  C8, amended. Once the catalog client is obtained, \<open>create_glue_table\<close> first makes one
  create call; it makes an update call exactly when the create call raised
  \<open>AlreadyExistsException\<close>, and none otherwise; when the client cannot be obtained it
  makes neither call. The update call's description carries the table name, the columns,
  the location and the partition keys, and none of the storage-format and serialization
  parameters, table type and parameters that the create call sends.
\<close>

theorem create_then_update_on_exists:
  "(boto3_client env tr ''glue'' = None \<longrightarrow>
      (\<exists>rest. new_events tr (snd (create_glue_table cfg env n l sfields tr))
          = CreateTable database_name (create_table_input cfg n l sfields) # rest)
      \<and> create_calls (new_events tr (snd (create_glue_table cfg env n l sfields tr)))
          = [(database_name, create_table_input cfg n l sfields)]
      \<and> update_calls (new_events tr (snd (create_glue_table cfg env n l sfields tr)))
          = (case create_table env tr database_name (create_table_input cfg n l sfields) of
               None \<Rightarrow> []
             | Some e \<Rightarrow> if class_of e = AlreadyExistsException
                         then [(database_name, update_table_input cfg n l sfields)] else []))
   \<and> (boto3_client env' tr' ''glue'' = Some e0 \<longrightarrow>
      create_calls (new_events tr' (snd (create_glue_table cfg env' n l sfields tr'))) = []
      \<and> update_calls (new_events tr' (snd (create_glue_table cfg env' n l sfields tr'))) = [])
   \<and> dict_keys (update_table_input cfg n l sfields) = [''Name'', ''StorageDescriptor'', ''PartitionKeys'']
   \<and> dict_keys (dict_get (update_table_input cfg n l sfields) ''StorageDescriptor'')
        = [''Columns'', ''Location'']
   \<and> dict_get (update_table_input cfg n l sfields) ''Name'' = PStr n
   \<and> dict_get (dict_get (update_table_input cfg n l sfields) ''StorageDescriptor'') ''Columns''
        = PList (glue_schema_loop cfg sfields [])
   \<and> dict_get (dict_get (update_table_input cfg n l sfields) ''StorageDescriptor'') ''Location''
        = PStr l
   \<and> dict_get (update_table_input cfg n l sfields) ''PartitionKeys'' = PList (partition_keys cfg)
   \<and> dict_keys (create_table_input cfg n l sfields)
        = [''Name'', ''StorageDescriptor'', ''PartitionKeys'', ''TableType'', ''Parameters'']
   \<and> dict_keys (dict_get (create_table_input cfg n l sfields) ''StorageDescriptor'')
        = [''Columns'', ''Location'', ''InputFormat'', ''OutputFormat'', ''SerdeInfo'',
           ''StoredAsSubDirectories'']"
proof -
  have ev: "(\<exists>rest. new_events tr (snd (create_glue_table cfg env n l sfields tr))
          = CreateTable database_name (create_table_input cfg n l sfields) # rest)
      \<and> create_calls (new_events tr (snd (create_glue_table cfg env n l sfields tr)))
          = [(database_name, create_table_input cfg n l sfields)]
      \<and> update_calls (new_events tr (snd (create_glue_table cfg env n l sfields tr)))
          = (case create_table env tr database_name (create_table_input cfg n l sfields) of
               None \<Rightarrow> []
             | Some e \<Rightarrow> if class_of e = AlreadyExistsException
                         then [(database_name, update_table_input cfg n l sfields)] else [])"
    if "boto3_client env tr ''glue'' = None"
    using that by (simp add: create_glue_table_cases split: option.splits)
  have none: "create_calls (new_events tr' (snd (create_glue_table cfg env' n l sfields tr'))) = []
      \<and> update_calls (new_events tr' (snd (create_glue_table cfg env' n l sfields tr'))) = []"
    if "boto3_client env' tr' ''glue'' = Some e0"
    using that by (simp add: create_glue_table_cases)
  have keys: "dict_keys (update_table_input cfg n l sfields) = [''Name'', ''StorageDescriptor'', ''PartitionKeys'']
   \<and> dict_keys (dict_get (update_table_input cfg n l sfields) ''StorageDescriptor'')
        = [''Columns'', ''Location'']
   \<and> dict_get (update_table_input cfg n l sfields) ''Name'' = PStr n
   \<and> dict_get (dict_get (update_table_input cfg n l sfields) ''StorageDescriptor'') ''Columns''
        = PList (glue_schema_loop cfg sfields [])
   \<and> dict_get (dict_get (update_table_input cfg n l sfields) ''StorageDescriptor'') ''Location''
        = PStr l
   \<and> dict_get (update_table_input cfg n l sfields) ''PartitionKeys'' = PList (partition_keys cfg)"
    by (simp add: update_table_input_def)
  have ckeys: "dict_keys (create_table_input cfg n l sfields)
        = [''Name'', ''StorageDescriptor'', ''PartitionKeys'', ''TableType'', ''Parameters'']
   \<and> dict_keys (dict_get (create_table_input cfg n l sfields) ''StorageDescriptor'')
        = [''Columns'', ''Location'', ''InputFormat'', ''OutputFormat'', ''SerdeInfo'',
           ''StoredAsSubDirectories'']"
    by (simp add: create_table_input_def)
  from ev none keys ckeys show ?thesis by blast
qed

theorem create_then_update_on_exists_witness:
  "boto3_client example_env
      [CreateTable database_name
         (create_table_input example_config ''patient'' ''s3://curated/patient/''
            (schema_fields example_df_with_metadata)),
       Print ''Created Glue table: patient''] ''glue'' = None
   \<and> boto3_client example_env_no_client [] ''glue'' = Some (Exn OtherError ''NoRegionError'')
   \<and> create_table example_env
      [CreateTable database_name
         (create_table_input example_config ''patient'' ''s3://curated/patient/''
            (schema_fields example_df_with_metadata)),
       Print ''Created Glue table: patient'']
      database_name
      (create_table_input example_config ''patient'' ''s3://curated/patient/''
         (schema_fields example_df_with_metadata))
     = Some (Exn AlreadyExistsException ''Table already exists'')
   \<and> create_calls (new_events
        [CreateTable database_name
           (create_table_input example_config ''patient'' ''s3://curated/patient/''
              (schema_fields example_df_with_metadata)),
         Print ''Created Glue table: patient'']
        (snd (create_glue_table example_config example_env ''patient'' ''s3://curated/patient/''
               (schema_fields example_df_with_metadata)
               [CreateTable database_name
                  (create_table_input example_config ''patient'' ''s3://curated/patient/''
                     (schema_fields example_df_with_metadata)),
                Print ''Created Glue table: patient''])))
     = [(database_name, create_table_input example_config ''patient'' ''s3://curated/patient/''
           (schema_fields example_df_with_metadata))]
   \<and> update_calls (new_events
        [CreateTable database_name
           (create_table_input example_config ''patient'' ''s3://curated/patient/''
              (schema_fields example_df_with_metadata)),
         Print ''Created Glue table: patient'']
        (snd (create_glue_table example_config example_env ''patient'' ''s3://curated/patient/''
               (schema_fields example_df_with_metadata)
               [CreateTable database_name
                  (create_table_input example_config ''patient'' ''s3://curated/patient/''
                     (schema_fields example_df_with_metadata)),
                Print ''Created Glue table: patient''])))
     = [(database_name, update_table_input example_config ''patient'' ''s3://curated/patient/''
           (schema_fields example_df_with_metadata))]
   \<and> update_calls (new_events []
        (snd (create_glue_table example_config example_env ''patient'' ''s3://curated/patient/''
               (schema_fields example_df_with_metadata) [])))
     = []
   \<and> create_calls (new_events []
        (snd (create_glue_table example_config example_env_no_client ''patient''
               ''s3://curated/patient/'' (schema_fields example_df_with_metadata) [])))
     = []"
proof -
  let ?ci = "create_table_input example_config ''patient'' ''s3://curated/patient/''
      (schema_fields example_df_with_metadata)"
  let ?tr = "[CreateTable database_name ?ci, Print ''Created Glue table: patient'']"
  let ?e0 = "Exn OtherError ''NoRegionError''"
  have client: "boto3_client example_env ?tr ''glue'' = None"
    by (simp add: example_env_def)
  have client0: "boto3_client example_env [] ''glue'' = None"
    by (simp add: example_env_def)
  have no_client: "boto3_client example_env_no_client [] ''glue'' = Some ?e0"
    by (simp add: example_env_no_client_def)
  have exists: "create_table example_env ?tr database_name ?ci
      = Some (Exn AlreadyExistsException ''Table already exists'')"
    by (simp add: example_env_def)
  have absent: "create_table example_env [] database_name ?ci = None"
    by (simp add: example_env_def)
  note second = create_then_update_on_exists [where env = example_env and tr = ?tr
      and env' = example_env_no_client and tr' = "[]" and ?e0.0 = ?e0
      and cfg = example_config and n = "''patient''" and l = "''s3://curated/patient/''"
      and sfields = "schema_fields example_df_with_metadata"]
  note first = create_then_update_on_exists [where env = example_env and tr = "[]"
      and env' = example_env_no_client and tr' = "[]" and ?e0.0 = ?e0
      and cfg = example_config and n = "''patient''" and l = "''s3://curated/patient/''"
      and sfields = "schema_fields example_df_with_metadata"]
  from second client have c: "create_calls (new_events ?tr
        (snd (create_glue_table example_config example_env ''patient'' ''s3://curated/patient/''
               (schema_fields example_df_with_metadata) ?tr))) = [(database_name, ?ci)]"
    by blast
  from second client exists have u: "update_calls (new_events ?tr
        (snd (create_glue_table example_config example_env ''patient'' ''s3://curated/patient/''
               (schema_fields example_df_with_metadata) ?tr)))
      = [(database_name, update_table_input example_config ''patient'' ''s3://curated/patient/''
           (schema_fields example_df_with_metadata))]"
    by simp
  from first client0 absent have n: "update_calls (new_events []
        (snd (create_glue_table example_config example_env ''patient'' ''s3://curated/patient/''
               (schema_fields example_df_with_metadata) []))) = []"
    by simp
  from second no_client have z: "create_calls (new_events []
        (snd (create_glue_table example_config example_env_no_client ''patient''
               ''s3://curated/patient/'' (schema_fields example_df_with_metadata) []))) = []"
    by blast
  from client no_client exists c u n z show ?thesis by blast
qed

lemma engine_event_not_print: "list_all is_engine_event evs \<Longrightarrow> Print s \<notin> set evs"
  by (induction evs) auto

lemma process_resource_type_Inl:
  assumes "fst (process_resource_type cfg env rt ip ob tr) = Inl e"
  shows "Print (''Successfully wrote '' @ rt @ '' to '' @ out)
           \<notin> set (new_events tr (snd (process_resource_type cfg env rt ip ob tr)))"
proof -
  let ?tr0 = "tr @ [Print (''Processing '' @ rt @ '' from '' @ ip)]"
  obtain r evs where a: "process_try cfg env rt ip ?tr0 = (r, ?tr0 @ ReadJson ip # evs)"
    using process_try_shape by blast
  from assms a have r: "r = Inl e"
    by (cases r) (simp_all add: process_resource_type_def)
  have "fst (process_try cfg env rt ip ?tr0) = Inl e"
    by (simp only: a r fst_conv)
  then have "list_all is_engine_event (new_events ?tr0 (snd (process_try cfg env rt ip ?tr0)))"
    by (rule process_try_Inl)
  then have eng: "list_all is_engine_event (ReadJson ip # evs)"
    by (simp only: a snd_conv new_events_append)
  from a r have "new_events tr (snd (process_resource_type cfg env rt ip ob tr)) =
      Print (''Processing '' @ rt @ '' from '' @ ip) # (ReadJson ip # evs)
        @ [Print (''Error processing '' @ rt @ '': '' @ str_exn e)]"
    by (simp add: process_resource_type_def)
  then show ?thesis
    using engine_event_not_print [OF eng] by simp
qed

text \<open>
  C9. \<open>create_glue_table\<close> never raises. An exception of the create call other than
  \<open>AlreadyExistsException\<close>, any exception of the update call, and an exception raised
  while the catalog client is obtained, is printed and swallowed. So once the data write
  of a resource type has succeeded, \<open>process_resource_type\<close> returns normally, whatever
  the catalog does.
\<close>

theorem catalog_errors_swallowed:
  "fst (create_glue_table cfg env n l sfields tr) = Inr ()
   \<and> (boto3_client env1 tr1 ''glue'' = None
        \<and> create_table env1 tr1 database_name (create_table_input cfg n l sfields) = Some e1
        \<and> class_of e1 \<noteq> AlreadyExistsException
      \<longrightarrow> create_glue_table cfg env1 n l sfields tr1 =
            (Inr (), tr1 @ [CreateTable database_name (create_table_input cfg n l sfields),
               Print (''Error creating/updating Glue table '' @ n @ '': '' @ str_exn e1)]))
   \<and> (boto3_client env2 tr2 ''glue'' = None
        \<and> create_table env2 tr2 database_name (create_table_input cfg n l sfields) = Some e2
        \<and> class_of e2 = AlreadyExistsException
        \<and> update_table env2
             (tr2 @ [CreateTable database_name (create_table_input cfg n l sfields),
                     Print (''Table '' @ n @ '' already exists, updating...'')])
             database_name (update_table_input cfg n l sfields) = Some e3
      \<longrightarrow> create_glue_table cfg env2 n l sfields tr2 =
            (Inr (), tr2 @ [CreateTable database_name (create_table_input cfg n l sfields),
               Print (''Table '' @ n @ '' already exists, updating...''),
               UpdateTable database_name (update_table_input cfg n l sfields),
               Print (''Error creating/updating Glue table '' @ n @ '': '' @ str_exn e3)]))
   \<and> (boto3_client env0 tr0 ''glue'' = Some e0
      \<longrightarrow> create_glue_table cfg env0 n l sfields tr0 =
            (Inr (), tr0 @ [Print (''Error creating/updating Glue table '' @ n @ '': '' @ str_exn e0)]))
   \<and> (Print (''Successfully wrote '' @ rt @ '' to '' @ output_path cfg rt)
          \<in> set (new_events tr3 (snd (process_resource_type cfg env3 rt ip ob tr3)))
      \<longrightarrow> fst (process_resource_type cfg env3 rt ip ob tr3) = Inr ())"
proof -
  have a: "fst (create_glue_table cfg env n l sfields tr) = Inr ()"
    by (rule create_glue_table_fst)
  have b: "create_glue_table cfg env1 n l sfields tr1 =
            (Inr (), tr1 @ [CreateTable database_name (create_table_input cfg n l sfields),
               Print (''Error creating/updating Glue table '' @ n @ '': '' @ str_exn e1)])"
    if "boto3_client env1 tr1 ''glue'' = None
        \<and> create_table env1 tr1 database_name (create_table_input cfg n l sfields) = Some e1
        \<and> class_of e1 \<noteq> AlreadyExistsException"
    using that by (simp add: create_glue_table_cases)
  have c: "create_glue_table cfg env2 n l sfields tr2 =
            (Inr (), tr2 @ [CreateTable database_name (create_table_input cfg n l sfields),
               Print (''Table '' @ n @ '' already exists, updating...''),
               UpdateTable database_name (update_table_input cfg n l sfields),
               Print (''Error creating/updating Glue table '' @ n @ '': '' @ str_exn e3)])"
    if "boto3_client env2 tr2 ''glue'' = None
        \<and> create_table env2 tr2 database_name (create_table_input cfg n l sfields) = Some e2
        \<and> class_of e2 = AlreadyExistsException
        \<and> update_table env2
             (tr2 @ [CreateTable database_name (create_table_input cfg n l sfields),
                     Print (''Table '' @ n @ '' already exists, updating...'')])
             database_name (update_table_input cfg n l sfields) = Some e3"
    using that by (simp add: create_glue_table_cases)
  have z: "create_glue_table cfg env0 n l sfields tr0 =
            (Inr (), tr0 @ [Print (''Error creating/updating Glue table '' @ n @ '': '' @ str_exn e0)])"
    if "boto3_client env0 tr0 ''glue'' = Some e0"
    using that by (simp add: create_glue_table_cases)
  have d: "fst (process_resource_type cfg env3 rt ip ob tr3) = Inr ()"
    if w: "Print (''Successfully wrote '' @ rt @ '' to '' @ output_path cfg rt)
          \<in> set (new_events tr3 (snd (process_resource_type cfg env3 rt ip ob tr3)))"
  proof (cases "fst (process_resource_type cfg env3 rt ip ob tr3)")
    case (Inl e)
    from process_resource_type_Inl [OF Inl, of "output_path cfg rt"] w show ?thesis
      by simp
  next
    case (Inr u)
    then show ?thesis by simp
  qed
  from a b c z d show ?thesis by blast
qed

theorem catalog_errors_swallowed_witness:
  "boto3_client example_env_denied [] ''glue'' = None
   \<and> create_table example_env_denied [] database_name
       (create_table_input example_config ''patient'' ''s3://curated/patient/''
          (schema_fields example_df_with_metadata))
     = Some (Exn OtherError ''AccessDeniedException'')
   \<and> class_of (Exn OtherError ''AccessDeniedException'') \<noteq> AlreadyExistsException
   \<and> boto3_client example_env_no_client [] ''glue'' = Some (Exn OtherError ''NoRegionError'')
   \<and> create_glue_table example_config example_env_denied ''patient'' ''s3://curated/patient/''
        (schema_fields example_df_with_metadata) []
     = (Inr (), [CreateTable database_name
                   (create_table_input example_config ''patient'' ''s3://curated/patient/''
                      (schema_fields example_df_with_metadata)),
                 Print ''Error creating/updating Glue table patient: AccessDeniedException''])
   \<and> create_glue_table example_config example_env_update_fails ''patient'' ''s3://curated/patient/''
        (schema_fields example_df_with_metadata) []
     = (Inr (), [CreateTable database_name
                   (create_table_input example_config ''patient'' ''s3://curated/patient/''
                      (schema_fields example_df_with_metadata)),
                 Print ''Table patient already exists, updating...'',
                 UpdateTable database_name
                   (update_table_input example_config ''patient'' ''s3://curated/patient/''
                      (schema_fields example_df_with_metadata)),
                 Print ''Error creating/updating Glue table patient: ThrottlingException''])
   \<and> create_glue_table example_config example_env_no_client ''patient'' ''s3://curated/patient/''
        (schema_fields example_df_with_metadata) []
     = (Inr (), [Print ''Error creating/updating Glue table patient: NoRegionError''])
   \<and> Print ''Successfully wrote Patient to s3://curated/patient/''
        \<in> set (new_events []
             (snd (process_resource_type example_config example_env_denied ''Patient''
                     ''s3://raw/export/Patient*.ndjson'' ''s3://curated/'' [])))
   \<and> Print ''Error creating/updating Glue table patient: AccessDeniedException''
        \<in> set (snd (process_resource_type example_config example_env_denied ''Patient''
                     ''s3://raw/export/Patient*.ndjson'' ''s3://curated/'' []))
   \<and> fst (process_resource_type example_config example_env_denied ''Patient''
             ''s3://raw/export/Patient*.ndjson'' ''s3://curated/'' []) = Inr ()"
proof -
  let ?ci = "create_table_input example_config ''patient'' ''s3://curated/patient/''
      (schema_fields example_df_with_metadata)"
  let ?ui = "update_table_input example_config ''patient'' ''s3://curated/patient/''
      (schema_fields example_df_with_metadata)"
  have h1: "boto3_client example_env_denied [] ''glue'' = None
      \<and> create_table example_env_denied [] database_name ?ci
      = Some (Exn OtherError ''AccessDeniedException'')
      \<and> class_of (Exn OtherError ''AccessDeniedException'') \<noteq> AlreadyExistsException"
    by (simp add: example_env_denied_def example_env_def)
  have h2: "boto3_client example_env_update_fails [] ''glue'' = None
      \<and> create_table example_env_update_fails [] database_name ?ci
      = Some (Exn AlreadyExistsException ''Table already exists'')
      \<and> class_of (Exn AlreadyExistsException ''Table already exists'') = AlreadyExistsException
      \<and> update_table example_env_update_fails
          ([] @ [CreateTable database_name ?ci,
                 Print (''Table '' @ ''patient'' @ '' already exists, updating...'')])
          database_name ?ui = Some (Exn OtherError ''ThrottlingException'')"
    by (simp add: example_env_update_fails_def example_env_def)
  have h0: "boto3_client example_env_no_client [] ''glue'' = Some (Exn OtherError ''NoRegionError'')"
    by (simp add: example_env_no_client_def)
  have h3: "Print (''Successfully wrote '' @ ''Patient'' @ '' to '' @ output_path example_config ''Patient'')
        \<in> set (new_events []
             (snd (process_resource_type example_config example_env_denied ''Patient''
                     ''s3://raw/export/Patient*.ndjson'' ''s3://curated/'' [])))"
    by (simp add: example_defs example_env_denied_def)
  have h4: "Print ''Error creating/updating Glue table patient: AccessDeniedException''
        \<in> set (snd (process_resource_type example_config example_env_denied ''Patient''
                     ''s3://raw/export/Patient*.ndjson'' ''s3://curated/'' []))"
    by (simp add: example_defs example_env_denied_def)
  have p: "output_path example_config ''Patient'' = ''s3://curated/patient/''"
    by (simp add: example_defs)
  note t = catalog_errors_swallowed [where cfg = example_config and env = example_env
      and n = "''patient''" and l = "''s3://curated/patient/''"
      and sfields = "schema_fields example_df_with_metadata" and tr = "[]"
      and ?env1.0 = example_env_denied and ?tr1.0 = "[]"
      and ?e1.0 = "Exn OtherError ''AccessDeniedException''"
      and ?env2.0 = example_env_update_fails and ?tr2.0 = "[]"
      and ?e2.0 = "Exn AlreadyExistsException ''Table already exists''"
      and ?e3.0 = "Exn OtherError ''ThrottlingException''"
      and ?env0.0 = example_env_no_client and ?tr0.0 = "[]"
      and ?e0.0 = "Exn OtherError ''NoRegionError''"
      and rt = "''Patient''" and ?tr3.0 = "[]" and ?env3.0 = example_env_denied
      and ip = "''s3://raw/export/Patient*.ndjson''" and ob = "''s3://curated/''"]
  from t h1 have r1: "create_glue_table example_config example_env_denied ''patient''
        ''s3://curated/patient/'' (schema_fields example_df_with_metadata) []
     = (Inr (), [] @ [CreateTable database_name ?ci,
          Print (''Error creating/updating Glue table '' @ ''patient'' @ '': ''
                  @ str_exn (Exn OtherError ''AccessDeniedException''))])"
    by blast
  from t h2 have r2: "create_glue_table example_config example_env_update_fails ''patient''
        ''s3://curated/patient/'' (schema_fields example_df_with_metadata) []
     = (Inr (), [] @ [CreateTable database_name ?ci,
          Print (''Table '' @ ''patient'' @ '' already exists, updating...''),
          UpdateTable database_name ?ui,
          Print (''Error creating/updating Glue table '' @ ''patient'' @ '': ''
                  @ str_exn (Exn OtherError ''ThrottlingException''))])"
    by blast
  from t h0 have r0: "create_glue_table example_config example_env_no_client ''patient''
        ''s3://curated/patient/'' (schema_fields example_df_with_metadata) []
     = (Inr (), [] @ [Print (''Error creating/updating Glue table '' @ ''patient'' @ '': ''
                  @ str_exn (Exn OtherError ''NoRegionError''))])"
    by blast
  from t h3 have r3: "fst (process_resource_type example_config example_env_denied ''Patient''
             ''s3://raw/export/Patient*.ndjson'' ''s3://curated/'' []) = Inr ()"
    by blast
  from h1 h0 r1 r2 r0 h3 h4 r3 p show ?thesis by simp
qed

end
